theory Spec2Isabelle
  imports Complex_Main "HOL-Library.Monad_Syntax"
begin

section \<open>The squad model (airsenal/framework/squad.py)\<close>

text \<open>
  Python values are embedded as follows. Unbounded Python integers are \<open>int\<close>; an optional
  argument is an \<open>option\<close>; a raise is the \<open>Inl\<close> of a sum. Objects that the source
  copies with \<open>fastcopy\<close> before every mutation are plain values.
\<close>

datatype position = GK | DEF | MID | FWD

datatype error =
    Exception string
  | RuntimeError string
  | IndexError
  | KeyError
  | ValueError
  | TypeError
  | AttributeError
  | ZeroDivisionError
  | UnboundLocalError string

text \<open>
  A \<open>CandidatePlayer\<close>, by the attributes that squad.py and optimization_utils.py read and
  write. \<open>predicted_points\<close> is the nested dictionary tag \<open>\<rightarrow>\<close> gameweek \<open>\<rightarrow>\<close> points.
\<close>

record player =
  player_id :: int
  name :: string
  team :: string
  position :: position
  purchase_price :: int
  is_starting :: bool
  is_captain :: bool
  is_vice_captain :: bool
  sub_position :: int
  predicted_points :: "(string \<times> (int \<times> real) list) list"

record squad =
  players :: "player list"
  budget :: int
  num_position :: "position \<Rightarrow> int"
  free_subs :: int
  subs_this_week :: int
  verbose :: bool

text \<open>\<open>TOTAL_PER_POSITION = {"GK": 2, "DEF": 5, "MID": 5, "FWD": 3}\<close>\<close>

fun TOTAL_PER_POSITION :: "position \<Rightarrow> int" where
  "TOTAL_PER_POSITION GK = 2"
| "TOTAL_PER_POSITION DEF = 5"
| "TOTAL_PER_POSITION MID = 5"
| "TOTAL_PER_POSITION FWD = 3"

definition FORMATIONS :: "nat list list" where
  "FORMATIONS = [[3, 4, 3], [3, 5, 2], [4, 3, 3], [4, 4, 2], [4, 5, 1], [5, 4, 1], [5, 3, 2]]"

text \<open>\<open>Squad.__init__(budget)\<close>: no players, every position count 0.\<close>

definition Squad :: "int \<Rightarrow> squad" where
  "Squad b = \<lparr>players = [], budget = b, num_position = (\<lambda>_. 0),
     free_subs = 0, subs_this_week = 0, verbose = False\<rparr>"

text \<open>\<open>sum(self.num_position.values()) == 15\<close>\<close>

definition is_complete :: "squad \<Rightarrow> bool" where
  "is_complete s =
     (num_position s GK + num_position s DEF + num_position s MID + num_position s FWD = 15)"

text \<open>Python truthiness of an optional integer argument: \<open>if price:\<close> is false for
  \<open>None\<close> and for \<open>0\<close>.\<close>

fun truthy :: "int option \<Rightarrow> bool" where
  "truthy None = False"
| "truthy (Some v) = (v \<noteq> 0)"

text \<open>\<open>check_no_duplicate_player\<close>: the loop returns False at the first equal id.\<close>

fun no_duplicate_loop :: "int \<Rightarrow> player list \<Rightarrow> bool" where
  "no_duplicate_loop pid [] = True"
| "no_duplicate_loop pid (p # ps) =
     (if player_id p = pid then False else no_duplicate_loop pid ps)"

definition check_no_duplicate_player :: "squad \<Rightarrow> player \<Rightarrow> bool" where
  "check_no_duplicate_player s pl = no_duplicate_loop (player_id pl) (players s)"

definition check_num_in_position :: "squad \<Rightarrow> player \<Rightarrow> bool" where
  "check_num_in_position s pl =
     (num_position s (position pl) < TOTAL_PER_POSITION (position pl))"

text \<open>\<open>check_num_per_team\<close>: counts the squad members of the new player's team and
  returns False when the count reaches 3.\<close>

fun num_per_team_loop :: "string \<Rightarrow> player list \<Rightarrow> nat \<Rightarrow> bool" where
  "num_per_team_loop t [] num_same_team = True"
| "num_per_team_loop t (p # ps) num_same_team =
     (if team p = t
      then (if num_same_team + 1 = 3 then False
            else num_per_team_loop t ps (num_same_team + 1))
      else num_per_team_loop t ps num_same_team)"

definition check_num_per_team :: "squad \<Rightarrow> player \<Rightarrow> bool" where
  "check_num_per_team s pl = num_per_team_loop (team pl) (players s) 0"

definition check_cost :: "squad \<Rightarrow> player \<Rightarrow> bool" where
  "check_cost s pl = (purchase_price pl \<le> budget s)"

text \<open>
  \<open>add_player\<close>, on the values of the squad and of the candidate. The candidate is a
  \<open>CandidatePlayer\<close> object that is not one of the squad's players (an id, a name or a
  database row is first resolved to a fresh one by the constructor, which is outside the
  modelled sources), or any candidate when no price is given: on these calls the write
  \<open>if price: player.purchase_price = price\<close> before the checks cannot reach the squad,
  and \<open>with_price\<close> is the candidate after it. The call on an object the squad holds is
  \<open>add_player_store\<close> below, which agrees with this function on the calls named here
  (lemma \<open>add_player_store_value\<close>). The outcome names the return statement that is
  reached; the four failures are the four \<open>return False\<close>, in the order of the source.
\<close>

datatype add_outcome =
  AlreadyInTeam | TooManyInPosition | CannotAfford | TooManyFromTeam | Added

definition with_price :: "player \<Rightarrow> int option \<Rightarrow> player" where
  "with_price p price = (if truthy price then p\<lparr>purchase_price := the price\<rparr> else p)"

definition add_player_outcome ::
  "player \<Rightarrow> int option \<Rightarrow> bool \<Rightarrow> bool \<Rightarrow> squad \<Rightarrow> add_outcome \<times> squad" where
  "add_player_outcome p price check_budget check_team s =
     (let pl = with_price p price in
      if \<not> check_no_duplicate_player s pl then (AlreadyInTeam, s)
      else if \<not> check_num_in_position s pl then (TooManyInPosition, s)
      else if check_budget \<and> \<not> check_cost s pl then (CannotAfford, s)
      else if check_team \<and> \<not> check_num_per_team s pl then (TooManyFromTeam, s)
      else (Added,
            s\<lparr>players := players s @ [pl],
              num_position := (num_position s)
                 (position pl := num_position s (position pl) + 1),
              budget := budget s - purchase_price pl\<rparr>))"

definition add_player ::
  "player \<Rightarrow> int option \<Rightarrow> bool \<Rightarrow> bool \<Rightarrow> squad \<Rightarrow> bool \<times> squad" where
  "add_player p price check_budget check_team s =
     (case add_player_outcome p price check_budget check_team s of
        (r, s') \<Rightarrow> (r = Added, s'))"

text \<open>
  The price sources of \<open>get_sell_price_for_player\<close>, both outside the modelled sources: what the
  attempt on the live API yields for a player id (\<open>None\<close> when it is not made or fails) and
  what the database yields (\<open>None\<close> when the player or the price is not found).
  \<open>current_price\<close> is the value of \<open>price_now\<close> after the two \<open>if not price_now\<close>
  fallbacks, the last of which takes the purchase price.
\<close>

record market =
  api_now_cost :: "int \<Rightarrow> int option"
  db_price :: "int \<Rightarrow> int option"

definition current_price :: "market \<Rightarrow> player \<Rightarrow> int" where
  "current_price mk pl =
     (let price_now = api_now_cost mk (player_id pl);
          price_now = (if \<not> truthy price_now then db_price mk (player_id pl) else price_now)
      in if \<not> truthy price_now then purchase_price pl else the price_now)"

definition get_sell_price_for_player :: "market \<Rightarrow> player \<Rightarrow> int" where
  "get_sell_price_for_player mk pl =
     (let price_bought = purchase_price pl;
          price_now = current_price mk pl
      in if price_now > price_bought then (price_now + price_bought) div 2 else price_now)"

text \<open>\<open>remove_player\<close>: the first squad member with the id is sold.\<close>

fun find_player :: "int \<Rightarrow> player list \<Rightarrow> player option" where
  "find_player pid [] = None"
| "find_player pid (p # ps) = (if player_id p = pid then Some p else find_player pid ps)"

definition remove_player :: "market \<Rightarrow> int \<Rightarrow> int option \<Rightarrow> squad \<Rightarrow> bool \<times> squad" where
  "remove_player mk pid price s =
     (case find_player pid (players s) of
        None \<Rightarrow> (False, s)
      | Some p \<Rightarrow>
          (True,
           s\<lparr>budget := budget s +
                (if truthy price then the price else get_sell_price_for_player mk p),
             num_position := (num_position s)
                (position p := num_position s (position p) - 1),
             players := remove1 p (players s)\<rparr>))"

text \<open>
  A sequence of \<open>add_player\<close>/\<open>remove_player\<close> calls on one squad object: each call
  mutates the squad in place, so the next call sees the state the previous one left.
\<close>

datatype squad_op =
    AddPlayer player "int option" bool bool
  | RemovePlayer int "int option"

fun apply_op :: "market \<Rightarrow> squad_op \<Rightarrow> squad \<Rightarrow> bool \<times> squad" where
  "apply_op mk (AddPlayer p price check_budget check_team) s =
     add_player p price check_budget check_team s"
| "apply_op mk (RemovePlayer pid price) s = remove_player mk pid price s"

fun run_ops :: "market \<Rightarrow> squad_op list \<Rightarrow> squad \<Rightarrow> squad" where
  "run_ops mk [] s = s"
| "run_ops mk (x # xs) s = run_ops mk xs (snd (apply_op mk x s))"

text \<open>How many squad members play for a team, and how many hold a position.\<close>

definition team_count :: "string \<Rightarrow> squad \<Rightarrow> nat" where
  "team_count t s = length (filter (\<lambda>p. team p = t) (players s))"

definition position_count :: "position \<Rightarrow> squad \<Rightarrow> nat" where
  "position_count pos s = length (filter (\<lambda>p. position p = pos) (players s))"

text \<open>A candidate with no predictions and no flags set, for evaluating the operations
  on concrete squads.\<close>

definition example_player :: "int \<Rightarrow> string \<Rightarrow> position \<Rightarrow> int \<Rightarrow> player" where
  "example_player pid t pos price =
     \<lparr>player_id = pid, name = [], team = t, position = pos, purchase_price = price,
      is_starting = False, is_captain = False, is_vice_captain = False, sub_position = 0,
      predicted_points = []\<rparr>"

definition no_market :: market where
  "no_market = \<lparr>api_now_cost = (\<lambda>_. None), db_price = (\<lambda>_. None)\<rparr>"

text \<open>
  The invariant tying the position counts to the player list: each count is the number of
  members holding the position, no count exceeds its quota, and the ids are distinct.
\<close>

definition squad_inv :: "squad \<Rightarrow> bool" where
  "squad_inv s \<longleftrightarrow> (\<forall>pos. num_position s pos = int (position_count pos s)) \<and>
     (\<forall>pos. num_position s pos \<le> TOTAL_PER_POSITION pos) \<and>
     distinct (map player_id (players s))"

text \<open>
  Which calls of a sequence run the optional checks, and which prices are non-negative:
  the purchase price a call would give the player, an explicit sale price, and what the
  price sources return.
\<close>

fun team_checked :: "squad_op \<Rightarrow> bool" where
  "team_checked (AddPlayer p price check_budget check_team) = check_team"
| "team_checked (RemovePlayer pid price) = True"

fun budget_checked :: "squad_op \<Rightarrow> bool" where
  "budget_checked (AddPlayer p price check_budget check_team) = check_budget"
| "budget_checked (RemovePlayer pid price) = True"

fun nonneg_prices :: "squad_op \<Rightarrow> bool" where
  "nonneg_prices (AddPlayer p price check_budget check_team) =
     (0 \<le> purchase_price (with_price p price))"
| "nonneg_prices (RemovePlayer pid price) = (case price of None \<Rightarrow> True | Some v \<Rightarrow> 0 \<le> v)"

definition market_nonneg :: "market \<Rightarrow> bool" where
  "market_nonneg mk \<longleftrightarrow>
     (\<forall>pid v. api_now_cost mk pid = Some v \<or> db_price mk pid = Some v \<longrightarrow> 0 \<le> v)"

definition budget_inv :: "squad \<Rightarrow> bool" where
  "budget_inv s \<longleftrightarrow> 0 \<le> budget s \<and> list_all (\<lambda>p. 0 \<le> purchase_price p) (players s)"


section \<open>Point hits and the expected number of leaves (framework/optimization_utils.py)\<close>

text \<open>
  A transfer directive is dynamically typed in the source: an integer, or one of the
  strings \<open>"W"\<close>, \<open>"F"\<close>, \<open>"Bx"\<close>, \<open>"Tx"\<close>.
\<close>

datatype py_value = PyInt int | PyStr string

definition startswith :: "string \<Rightarrow> string \<Rightarrow> bool" where
  "startswith s pre = (take (length pre) s = pre)"

text \<open>\<open>int(c)\<close> for a one-character string: the value of a decimal digit, and a
  \<open>ValueError\<close> for any other character.\<close>

definition digit_value :: "char \<Rightarrow> int option" where
  "digit_value c = map_of
     [(CHR ''0'', 0), (CHR ''1'', 1), (CHR ''2'', 2), (CHR ''3'', 3), (CHR ''4'', 4),
      (CHR ''5'', 5), (CHR ''6'', 6), (CHR ''7'', 7), (CHR ''8'', 8), (CHR ''9'', 9)] c"

definition py_int_char :: "char \<Rightarrow> error + int" where
  "py_int_char c = (case digit_value c of None \<Rightarrow> Inl ValueError | Some n \<Rightarrow> Inr n)"

definition calc_points_hit :: "py_value \<Rightarrow> int \<Rightarrow> error + int" where
  "calc_points_hit num_transfers free_transfers =
     (if num_transfers = PyStr ''W'' \<or> num_transfers = PyStr ''F'' then Inr 0
      else case num_transfers of
        PyInt n \<Rightarrow> Inr (max 0 (4 * (n - free_transfers)))
      | PyStr s \<Rightarrow>
          if (startswith s ''B'' \<or> startswith s ''T'') \<and> length s = 2
          then (case py_int_char (last s) of
                  Inl e \<Rightarrow> Inl e
                | Inr n \<Rightarrow> Inr (max 0 (4 * (n - free_transfers))))
          else Inl (RuntimeError ''Unexpected argument for num_transfers''))"

definition calc_free_transfers :: "py_value \<Rightarrow> int \<Rightarrow> error + int" where
  "calc_free_transfers num_transfers prev_free_transfers =
     (if num_transfers = PyStr ''W'' \<or> num_transfers = PyStr ''F'' then Inr 1
      else case num_transfers of
        PyInt n \<Rightarrow> Inr (max 1 (min 2 (1 + prev_free_transfers - n)))
      | PyStr s \<Rightarrow>
          if (startswith s ''B'' \<or> startswith s ''T'') \<and> length s = 2
          then (case py_int_char (last s) of
                  Inl e \<Rightarrow> Inl e
                | Inr n \<Rightarrow> Inr (max 1 (min 2 (1 + prev_free_transfers - n))))
          else Inl (RuntimeError ''Unexpected argument for num_transfers''))"

text \<open>
  \<open>count_expected_outputs\<close> recurses on \<open>week + 1\<close> until it equals \<open>max_week\<close>, which never
  happens when \<open>week \<ge> max_week\<close> at the call. The first argument bounds the depth of the
  recursion: \<open>None\<close> is a computation that did not return within it. The body of
  \<open>for _ in range(3)\<close> is \<open>count_loop_body\<close>, given the three recursive results it adds.
\<close>

definition count_loop_body ::
  "int option \<Rightarrow> int option \<Rightarrow> int option \<Rightarrow> bool \<Rightarrow> bool \<Rightarrow> int option \<Rightarrow> int option" where
  "count_loop_body r_all r_no_tc r_no_bb can_tc can_bb tot =
     do {
       t \<leftarrow> tot;
       a \<leftarrow> r_all;
       t \<leftarrow> Some (t + a);
       t \<leftarrow> (if can_tc then do { b \<leftarrow> r_no_tc; Some (t + b) } else Some t);
       (if can_bb then do { c \<leftarrow> r_no_bb; Some (t + c) } else Some t)
     }"

fun count_expected_outputs ::
  "nat \<Rightarrow> int \<Rightarrow> int \<Rightarrow> bool \<Rightarrow> bool \<Rightarrow> bool \<Rightarrow> bool \<Rightarrow> int option" where
  "count_expected_outputs 0 week max_week can_play_wildcard can_play_free_hit
     can_play_triple_captain can_play_bench_boost = None"
| "count_expected_outputs (Suc depth) week max_week can_play_wildcard can_play_free_hit
     can_play_triple_captain can_play_bench_boost =
     (let week = week + 1 in
      if week = max_week then
        Some (3 + of_bool can_play_wildcard + of_bool can_play_free_hit
                + 3 * of_bool can_play_triple_captain + 3 * of_bool can_play_bench_boost)
      else do {
        tot \<leftarrow> fold (\<lambda>_. count_loop_body
            (count_expected_outputs depth week max_week can_play_wildcard can_play_free_hit
               can_play_triple_captain can_play_bench_boost)
            (count_expected_outputs depth week max_week can_play_wildcard can_play_free_hit
               False can_play_bench_boost)
            (count_expected_outputs depth week max_week can_play_wildcard can_play_free_hit
               can_play_triple_captain False)
            can_play_triple_captain can_play_bench_boost) [0 ..< 3] (Some 0);
        tot \<leftarrow> (if can_play_wildcard then do {
            w \<leftarrow> count_expected_outputs depth week max_week False can_play_free_hit
                   can_play_triple_captain can_play_bench_boost;
            Some (tot + w) } else Some tot);
        (if can_play_free_hit then do {
            f \<leftarrow> count_expected_outputs depth week max_week can_play_wildcard False
                   can_play_triple_captain can_play_bench_boost;
            Some (tot + f) } else Some tot)
      })"


section \<open>The result selector (scripts/fill_transfersuggestion_table.py)\<close>

text \<open>
  A persisted leaf record, as \<open>json.dump(strat_dict)\<close> writes it, and the output directory
  as the list of its files in the order \<open>os.listdir\<close> gives them, each with the record
  \<open>json.load\<close> reads from it. Scores are the numbers the JSON text denotes.
\<close>

record strat =
  total_score :: real
  points_per_gw :: "(string \<times> real) list"
  players_in :: "(string \<times> int list) list"
  players_out :: "(string \<times> int list) list"
  cards_played :: "(string \<times> string option) list"

text \<open>Python's \<open>pat in s\<close> on strings.\<close>

fun str_contains :: "string \<Rightarrow> string \<Rightarrow> bool" where
  "str_contains [] pat = (pat = [])"
| "str_contains (c # cs) pat = (startswith (c # cs) pat \<or> str_contains cs pat)"

definition tagged :: "string \<Rightarrow> string \<Rightarrow> bool" where
  "tagged tag filename = str_contains filename (''strategy_'' @ tag @ ''_'')"

fun best_strat_loop ::
  "string \<Rightarrow> (string \<times> strat) list \<Rightarrow> real \<Rightarrow> strat option \<Rightarrow> strat option" where
  "best_strat_loop tag [] best_score best_strat = best_strat"
| "best_strat_loop tag ((filename, st) # file_list) best_score best_strat =
     (if \<not> tagged tag filename then best_strat_loop tag file_list best_score best_strat
      else if total_score st > best_score
           then best_strat_loop tag file_list (total_score st) (Some st)
           else best_strat_loop tag file_list best_score best_strat)"

definition find_best_strat_from_json :: "string \<Rightarrow> (string \<times> strat) list \<Rightarrow> strat option" where
  "find_best_strat_from_json tag file_list = best_strat_loop tag file_list 0 None"

text \<open>The records of a tag among the files.\<close>

definition records_of :: "string \<Rightarrow> (string \<times> strat) list \<Rightarrow> strat list" where
  "records_of tag file_list = map snd (filter (\<lambda>f. tagged tag (fst f)) file_list)"

definition example_strat :: "real \<Rightarrow> strat" where
  "example_strat sc = \<lparr>total_score = sc, points_per_gw = [], players_in = [],
     players_out = [], cards_played = []\<rparr>"


section \<open>Lineup and expected points (framework/squad.py)\<close>

text \<open>
  Predicted points are floating-point numbers in the source; here they are the real
  numbers they denote, and sums and products are exact, where the source rounds each
  result to a double: two scores that differ here by less than the rounding can compare
  differently in the source. \<open>p.predicted_points[tag][gameweek]\<close>
  raises \<open>KeyError\<close> when the tag or the gameweek is missing: \<open>None\<close> below.
\<close>

definition lookup_points :: "player \<Rightarrow> string \<Rightarrow> int \<Rightarrow> real option" where
  "lookup_points p tag gameweek =
     (case map_of (predicted_points p) tag of None \<Rightarrow> None | Some m \<Rightarrow> map_of m gameweek)"

text \<open>
  \<open>_calc_expected_points\<close> calls \<open>calc_predicted_points(tag)\<close> of every player, a method
  of the player class, which is outside the modelled sources: \<open>calc\<close> gives the dictionary of
  predictions the player holds after the call.
\<close>

type_synonym predictor = "string \<Rightarrow> player \<Rightarrow> (string \<times> (int \<times> real) list) list"

definition calc_expected_points :: "predictor \<Rightarrow> string \<Rightarrow> squad \<Rightarrow> squad" where
  "calc_expected_points calc tag s =
     s\<lparr>players := map (\<lambda>p. p\<lparr>predicted_points := calc tag p\<rparr>) (players s)\<rparr>"

text \<open>
  \<open>optimize_subs\<close> keeps, for each position, a list of pairs (player object, points). The
  objects are the squad's own, so a flag set through the list is set in the squad: a
  pair below holds the index of the player in \<open>self.players\<close>. The sort is Python's
  \<open>sort(key=itemgetter(1), reverse=True)\<close>: descending, equal keys in their original
  order.
\<close>

definition set_starting :: "nat \<Rightarrow> bool \<Rightarrow> player list \<Rightarrow> player list" where
  "set_starting k b ps = ps[k := (ps ! k)\<lparr>is_starting := b\<rparr>]"

definition sort_desc :: "(nat \<times> real) list \<Rightarrow> (nat \<times> real) list" where
  "sort_desc xs = sort_key (\<lambda>e. - snd e) xs"

definition points_or_zero :: "player \<Rightarrow> string \<Rightarrow> int \<Rightarrow> real" where
  "points_or_zero p tag gameweek =
     (case lookup_points p tag gameweek of None \<Rightarrow> 0 | Some v \<Rightarrow> v)"

definition player_dict :: "squad \<Rightarrow> int \<Rightarrow> string \<Rightarrow> position \<Rightarrow> (nat \<times> real) list" where
  "player_dict s gameweek tag pos =
     sort_desc (filter (\<lambda>e. position (players s ! fst e) = pos)
       (map (\<lambda>k. (k, points_or_zero (players s ! k) tag gameweek)) [0 ..< length (players s)]))"

text \<open>\<open>player_dict["GK"][0][0].is_starting = True; player_dict["GK"][1][0].is_starting = False\<close>\<close>

definition start_keepers :: "(position \<Rightarrow> (nat \<times> real) list) \<Rightarrow> squad \<Rightarrow> error + squad" where
  "start_keepers pd s =
     (case pd GK of
        [] \<Rightarrow> Inl IndexError
      | [g0] \<Rightarrow> Inl IndexError
      | g0 # g1 # rest \<Rightarrow>
          Inr (s\<lparr>players := set_starting (fst g1) False
                               (set_starting (fst g0) True (players s))\<rparr>))"

text \<open>
  \<open>apply_formation\<close>. The formation is a tuple, or \<open>None\<close> when \<open>optimize_subs\<close> found no
  formation; \<open>formation[i]\<close> is evaluated for each player of the position.
\<close>

fun formation_entry :: "nat list option \<Rightarrow> nat \<Rightarrow> error + nat" where
  "formation_entry None i = Inl TypeError"
| "formation_entry (Some f) i = (if i < length f then Inr (f ! i) else Inl IndexError)"

fun apply_formation_pos ::
  "nat list option \<Rightarrow> nat \<Rightarrow> (nat \<times> real) list \<Rightarrow> nat \<Rightarrow> player list \<Rightarrow> error + player list" where
  "apply_formation_pos formation i [] index ps = Inr ps"
| "apply_formation_pos formation i (e # rest) index ps =
     (case formation_entry formation i of
        Inl err \<Rightarrow> Inl err
      | Inr n \<Rightarrow> apply_formation_pos formation i rest (index + 1)
                  (set_starting (fst e) (index < n) ps))"

definition apply_formation ::
  "(position \<Rightarrow> (nat \<times> real) list) \<Rightarrow> nat list option \<Rightarrow> squad \<Rightarrow> error + squad" where
  "apply_formation pd formation s =
     (case apply_formation_pos formation 0 (pd DEF) 0 (players s) of
        Inl err \<Rightarrow> Inl err
      | Inr ps1 \<Rightarrow>
     (case apply_formation_pos formation 1 (pd MID) 0 ps1 of
        Inl err \<Rightarrow> Inl err
      | Inr ps2 \<Rightarrow>
     (case apply_formation_pos formation 2 (pd FWD) 0 ps2 of
        Inl err \<Rightarrow> Inl err
      | Inr ps3 \<Rightarrow> Inr (s\<lparr>players := ps3\<rparr>))))"

fun starting_11_loop :: "int \<Rightarrow> string \<Rightarrow> bool \<Rightarrow> player list \<Rightarrow> real \<Rightarrow> error + real" where
  "starting_11_loop gameweek tag triple_captain [] tot = Inr tot"
| "starting_11_loop gameweek tag triple_captain (p # ps) tot =
     (if is_starting p then
        (case lookup_points p tag gameweek of
           None \<Rightarrow> Inl KeyError
         | Some v \<Rightarrow>
             starting_11_loop gameweek tag triple_captain ps
               (tot + v + (if is_captain p then v + (if triple_captain then v else 0) else 0)))
      else starting_11_loop gameweek tag triple_captain ps tot)"

definition total_points_for_starting_11 :: "squad \<Rightarrow> int \<Rightarrow> string \<Rightarrow> bool \<Rightarrow> error + real" where
  "total_points_for_starting_11 s gameweek tag triple_captain =
     starting_11_loop gameweek tag triple_captain (players s) 0"

text \<open>The loop over \<open>FORMATIONS\<close> in \<open>optimize_subs\<close>, with \<open>best_score\<close> and
  \<open>best_formation\<close>.\<close>

fun formations_loop ::
  "(position \<Rightarrow> (nat \<times> real) list) \<Rightarrow> int \<Rightarrow> string \<Rightarrow> nat list list \<Rightarrow> squad \<Rightarrow> real \<Rightarrow>
     nat list option \<Rightarrow> error + (squad \<times> real \<times> nat list option)" where
  "formations_loop pd gameweek tag [] s best_score best_formation =
     Inr (s, best_score, best_formation)"
| "formations_loop pd gameweek tag (f # fs) s best_score best_formation =
     (case apply_formation pd (Some f) s of
        Inl err \<Rightarrow> Inl err
      | Inr s1 \<Rightarrow>
     (case total_points_for_starting_11 s1 gameweek tag False of
        Inl err \<Rightarrow> Inl err
      | Inr score \<Rightarrow>
          if score \<ge> best_score then formations_loop pd gameweek tag fs s1 score (Some f)
          else formations_loop pd gameweek tag fs s1 best_score best_formation))"

text \<open>
  \<open>order_substitutes\<close>. The \<open>except ValueError\<close> of the source does not catch the
  \<open>KeyError\<close> of a missing prediction. \<open>np.argsort\<close> gives the indices in ascending order of
  the points; equal points are taken in index order, as numpy's sort leaves them on the
  short arrays that arise here.
\<close>

fun collect_points :: "int \<Rightarrow> string \<Rightarrow> player list \<Rightarrow> error + real list" where
  "collect_points gameweek tag [] = Inr []"
| "collect_points gameweek tag (p # ps) =
     (case lookup_points p tag gameweek of
        None \<Rightarrow> Inl KeyError
      | Some v \<Rightarrow> (case collect_points gameweek tag ps of
                     Inl err \<Rightarrow> Inl err
                   | Inr vs \<Rightarrow> Inr (v # vs)))"

definition argsort :: "real list \<Rightarrow> nat list" where
  "argsort vs = map fst (sort_key snd (zip [0 ..< length vs] vs))"

fun assign_sub_positions :: "nat list \<Rightarrow> nat list \<Rightarrow> nat \<Rightarrow> player list \<Rightarrow> player list" where
  "assign_sub_positions subs [] n ps = ps"
| "assign_sub_positions subs (sub_ind # rest) n ps =
     assign_sub_positions subs rest (n + 1)
       (ps[subs ! sub_ind := (ps ! (subs ! sub_ind))\<lparr>sub_position := int n\<rparr>])"

definition order_substitutes :: "squad \<Rightarrow> int \<Rightarrow> string \<Rightarrow> error + squad" where
  "order_substitutes s gameweek tag =
     (let subs = filter (\<lambda>k. \<not> is_starting (players s ! k)) [0 ..< length (players s)] in
      case collect_points gameweek tag (map (\<lambda>k. players s ! k) subs) of
        Inl err \<Rightarrow> Inl err
      | Inr points \<Rightarrow>
          Inr (s\<lparr>players := assign_sub_positions subs (rev (argsort points)) 0 (players s)\<rparr>))"

definition optimize_subs :: "squad \<Rightarrow> int \<Rightarrow> string \<Rightarrow> error + (real \<times> squad)" where
  "optimize_subs s gameweek tag =
     (let pd = player_dict s gameweek tag in
      case start_keepers pd s of
        Inl err \<Rightarrow> Inl err
      | Inr s1 \<Rightarrow>
     (case formations_loop pd gameweek tag FORMATIONS s1 0 None of
        Inl err \<Rightarrow> Inl err
      | Inr (s2, best_score, best_formation) \<Rightarrow>
     (case apply_formation pd best_formation s2 of
        Inl err \<Rightarrow> Inl err
      | Inr s3 \<Rightarrow>
     (case order_substitutes s3 gameweek tag of
        Inl err \<Rightarrow> Inl err
      | Inr s4 \<Rightarrow> Inr (best_score, s4)))))"

text \<open>\<open>pick_captains\<close>: the flags are reset and the points read in one loop; then the two
  best of the descending list are marked.\<close>

definition pick_captains :: "squad \<Rightarrow> int \<Rightarrow> string \<Rightarrow> error + squad" where
  "pick_captains s gameweek tag =
     (let ps = map (\<lambda>p. p\<lparr>is_captain := False, is_vice_captain := False\<rparr>) (players s) in
      case collect_points gameweek tag ps of
        Inl err \<Rightarrow> Inl err
      | Inr points \<Rightarrow>
          (case sort_desc (zip [0 ..< length ps] points) of
             [] \<Rightarrow> Inl IndexError
           | [c0] \<Rightarrow> Inl IndexError
           | c0 # c1 # rest \<Rightarrow>
               Inr (s\<lparr>players :=
                 (let ps1 = ps[fst c0 := (ps ! fst c0)\<lparr>is_captain := True\<rparr>]
                  in ps1[fst c1 := (ps1 ! fst c1)\<lparr>is_vice_captain := True\<rparr>])\<rparr>)))"

text \<open>\<open>total_points_for_subs\<close> with the default weights
  \<open>{"GK": 1, "Outfield": (1, 1, 1)}\<close>.\<close>

fun outfield_subs_loop :: "int \<Rightarrow> string \<Rightarrow> player list \<Rightarrow> nat \<Rightarrow> real \<Rightarrow> error + real" where
  "outfield_subs_loop gameweek tag [] i tot = Inr tot"
| "outfield_subs_loop gameweek tag (p # ps) i tot =
     (if i \<ge> 3 then Inl IndexError
      else case lookup_points p tag gameweek of
             None \<Rightarrow> Inl KeyError
           | Some v \<Rightarrow> outfield_subs_loop gameweek tag ps (i + 1) (tot + 1 * v))"

definition total_points_for_subs :: "squad \<Rightarrow> int \<Rightarrow> string \<Rightarrow> error + real" where
  "total_points_for_subs s gameweek tag =
     (let outfield_subs = sort_key sub_position
            (filter (\<lambda>p. \<not> is_starting p \<and> position p \<noteq> GK) (players s)) in
      case filter (\<lambda>p. \<not> is_starting p \<and> position p = GK) (players s) of
        [] \<Rightarrow> Inl IndexError
      | gk_sub # rest \<Rightarrow>
          (case lookup_points gk_sub tag gameweek of
             None \<Rightarrow> Inl KeyError
           | Some v \<Rightarrow> outfield_subs_loop gameweek tag outfield_subs 0 (1 * v)))"

definition get_expected_points ::
  "predictor \<Rightarrow> squad \<Rightarrow> int \<Rightarrow> string \<Rightarrow> bool \<Rightarrow> bool \<Rightarrow> error + (real \<times> squad)" where
  "get_expected_points calc s gameweek tag bench_boost triple_captain =
     (if \<not> is_complete s then Inl (RuntimeError ''Squad is incomplete'')
      else
        let s0 = calc_expected_points calc tag s in
        case optimize_subs s0 gameweek tag of
          Inl err \<Rightarrow> Inl err
        | Inr (best_score, s1) \<Rightarrow>
       (case pick_captains s1 gameweek tag of
          Inl err \<Rightarrow> Inl err
        | Inr s2 \<Rightarrow>
       (case total_points_for_starting_11 s2 gameweek tag triple_captain of
          Inl err \<Rightarrow> Inl err
        | Inr score \<Rightarrow>
            if bench_boost then
              (case total_points_for_subs s2 gameweek tag of
                 Inl err \<Rightarrow> Inl err
               | Inr bench \<Rightarrow> Inr (score + bench, s2))
            else Inr (score, s2))))"


text \<open>
  A complete squad for evaluation: fifteen players with the same predicted points in
  gameweeks 1 and 2 under the tag \<open>tag\<close>, bought one after the other.
\<close>

definition example_player_pts :: "int \<Rightarrow> string \<Rightarrow> position \<Rightarrow> int \<Rightarrow> real \<Rightarrow> player" where
  "example_player_pts pid t pos price v =
     (example_player pid t pos price)\<lparr>predicted_points := [(''tag'', [(1, v), (2, v)])]\<rparr>"

definition example_squad_players :: "player list" where
  "example_squad_players =
     [example_player_pts 1 ''A'' GK 40 3, example_player_pts 2 ''B'' GK 40 2,
      example_player_pts 3 ''A'' DEF 40 5, example_player_pts 4 ''B'' DEF 40 4,
      example_player_pts 5 ''C'' DEF 40 3, example_player_pts 6 ''D'' DEF 40 2,
      example_player_pts 7 ''E'' DEF 40 1,
      example_player_pts 8 ''A'' MID 40 5, example_player_pts 9 ''B'' MID 40 6,
      example_player_pts 10 ''C'' MID 40 7, example_player_pts 11 ''D'' MID 40 2,
      example_player_pts 12 ''E'' MID 40 1,
      example_player_pts 13 ''F'' FWD 40 9, example_player_pts 14 ''G'' FWD 40 4,
      example_player_pts 15 ''H'' FWD 40 1]"

definition example_squad_ops :: "squad_op list" where
  "example_squad_ops = map (\<lambda>p. AddPlayer p None True True) example_squad_players"

definition example_squad :: squad where
  "example_squad = run_ops no_market example_squad_ops (Squad 600)"

text \<open>The predictor of a player class that keeps the predictions it was built with.\<close>

definition keep_predictions :: predictor where
  "keep_predictions tag p = predicted_points p"


section \<open>The single-transfer search (framework/optimization_utils.py)\<close>

text \<open>
  \<open>get_discount_factor\<close>. The factors are doubles in the source; here they are reals and
  the power, the product and the difference are exact, where the source rounds each
  result. \<open>0.0 ** n\<close> with a negative \<open>n\<close> raises \<open>ZeroDivisionError\<close>.
\<close>

definition get_discount_factor :: "int \<Rightarrow> int \<Rightarrow> string \<Rightarrow> real \<Rightarrow> error + real" where
  "get_discount_factor next_gw pred_gw discount_type discount =
     (if discount_type \<notin> set [''exp'', ''const'', ''constant'']
      then Inl (Exception ''unrecognised discount type, should be exp or const'')
      else
        let n_ahead = pred_gw - next_gw in
        if discount_type \<in> set [''exp''] then
          (if discount = 0 \<and> n_ahead < 0 then Inl ZeroDivisionError
           else Inr (discount powi n_ahead))
        else Inr (max (1 - (1 - discount) * of_int n_ahead) 0))"

text \<open>
  What the search reads from outside the modelled sources: the prices at the gameweek of the
  transfer, the predictions a player object loads, the ranked list
  \<open>get_predicted_points(gameweek, position, tag)\<close> of candidates with their summed points
  (each candidate as the \<open>CandidatePlayer\<close> that \<open>add_player\<close> builds from it), and the
  constant \<open>NEXT_GAMEWEEK\<close>.
\<close>

record provider =
  market_at :: "int \<Rightarrow> market"
  calc_predicted_points :: predictor
  get_predicted_points :: "int list \<Rightarrow> position \<Rightarrow> string \<Rightarrow> (player \<times> real) list"
  NEXT_GAMEWEEK :: int

text \<open>
  The loop \<open>for gw in gameweek_range: total_points += ...\<close>, with the default discount
  (\<open>exp\<close>, 14/15) counted from \<open>gameweek_range[0]\<close>. \<open>get_expected_points\<close> sets flags in
  the squad it scores, so the squad is threaded through.
\<close>

fun horizon_points ::
  "predictor \<Rightarrow> string \<Rightarrow> int \<Rightarrow> int option \<Rightarrow> int option \<Rightarrow> int list \<Rightarrow> squad \<Rightarrow> real \<Rightarrow>
     error + (real \<times> squad)" where
  "horizon_points calc tag gw0 bench_boost_gw triple_captain_gw [] s tot = Inr (tot, s)"
| "horizon_points calc tag gw0 bench_boost_gw triple_captain_gw (gw # gws) s tot =
     (case get_expected_points calc s gw tag (Some gw = bench_boost_gw)
             (Some gw \<noteq> bench_boost_gw \<and> Some gw = triple_captain_gw) of
        Inl err \<Rightarrow> Inl err
      | Inr (pts, s') \<Rightarrow>
     (case get_discount_factor gw0 gw ''exp'' (14 / 15) of
        Inl err \<Rightarrow> Inl err
      | Inr d \<Rightarrow>
          horizon_points calc tag gw0 bench_boost_gw triple_captain_gw gws s' (tot + pts * d)))"

text \<open>
  The scan \<open>for p_in in ordered_player_lists[position]\<close>: the removed player is skipped,
  the first successful \<open>add_player\<close> breaks the loop. The last argument is the binding of
  the variable \<open>p_in\<close>, which outlives the loop.
\<close>

fun scan_candidates ::
  "int \<Rightarrow> (player \<times> real) list \<Rightarrow> squad \<Rightarrow> (player \<times> real) option \<Rightarrow>
     squad \<times> (player \<times> real) option" where
  "scan_candidates pid_out [] s cur = (s, cur)"
| "scan_candidates pid_out (c # cs) s cur =
     (if player_id (fst c) = pid_out then scan_candidates pid_out cs s (Some c)
      else case add_player (fst c) None True True s of
             (added_ok, s') \<Rightarrow>
               if added_ok then (s', Some c) else scan_candidates pid_out cs s' (Some c))"

definition effective_range :: "provider \<Rightarrow> int list \<Rightarrow> int list" where
  "effective_range pv gameweek_range =
     (if gameweek_range = [] then [NEXT_GAMEWEEK pv] else gameweek_range)"

definition transfer_gw :: "int list \<Rightarrow> int" where
  "transfer_gw gameweek_range = foldl min (hd gameweek_range) (tl gameweek_range)"

text \<open>The body of \<open>for p_out in squad.players\<close> up to the score: copy, remove, scan,
  score. It returns the binding of \<open>p_in\<close>, \<open>total_points\<close> and \<open>new_squad\<close>.\<close>

definition try_transfer ::
  "provider \<Rightarrow> squad \<Rightarrow> string \<Rightarrow> int list \<Rightarrow> int option \<Rightarrow> int option \<Rightarrow> player \<Rightarrow>
     (player \<times> real) option \<Rightarrow> error + ((player \<times> real) option \<times> real \<times> squad)" where
  "try_transfer pv squad tag gameweek_range bench_boost_gw triple_captain_gw p_out cur =
     (let new_squad = squad;
          new_squad = snd (remove_player (market_at pv (transfer_gw gameweek_range))
                             (player_id p_out) None new_squad)
      in case scan_candidates (player_id p_out)
                (get_predicted_points pv gameweek_range (position p_out) tag) new_squad cur of
           (new_squad, pin) \<Rightarrow>
             (case horizon_points (calc_predicted_points pv) tag (hd gameweek_range)
                     bench_boost_gw triple_captain_gw gameweek_range new_squad 0 of
                Inl err \<Rightarrow> Inl err
              | Inr (total_points, new_squad) \<Rightarrow> Inr (pin, total_points, new_squad)))"

record transfer_search =
  best_score :: real
  best_pid_out :: int
  best_pid_in :: int
  best_squad :: "squad option"
  p_in :: "(player \<times> real) option"

fun single_transfer_loop ::
  "provider \<Rightarrow> squad \<Rightarrow> string \<Rightarrow> int list \<Rightarrow> int option \<Rightarrow> int option \<Rightarrow> player list \<Rightarrow>
     transfer_search \<Rightarrow> error + transfer_search" where
  "single_transfer_loop pv squad tag gameweek_range bb tc [] st = Inr st"
| "single_transfer_loop pv squad tag gameweek_range bb tc (p_out # rest) st =
     (case try_transfer pv squad tag gameweek_range bb tc p_out (p_in st) of
        Inl err \<Rightarrow> Inl err
      | Inr (pin, total_points, new_squad) \<Rightarrow>
          if total_points > best_score st then
            (case pin of
               None \<Rightarrow> Inl (UnboundLocalError ''p_in'')
             | Some c \<Rightarrow>
                 single_transfer_loop pv squad tag gameweek_range bb tc rest
                   \<lparr>best_score = total_points, best_pid_out = player_id p_out,
                    best_pid_in = player_id (fst c), best_squad = Some new_squad,
                    p_in = pin\<rparr>)
          else single_transfer_loop pv squad tag gameweek_range bb tc rest (st\<lparr>p_in := pin\<rparr>))"

definition make_optimum_single_transfer ::
  "provider \<Rightarrow> squad \<Rightarrow> string \<Rightarrow> int list \<Rightarrow> int option \<Rightarrow> int option \<Rightarrow>
     error + (squad \<times> int list \<times> int list)" where
  "make_optimum_single_transfer pv squad tag gameweek_range bench_boost_gw triple_captain_gw =
     (case single_transfer_loop pv squad tag (effective_range pv gameweek_range)
             bench_boost_gw triple_captain_gw (players squad)
             \<lparr>best_score = - 1, best_pid_out = 0, best_pid_in = 0, best_squad = None,
              p_in = None\<rparr> of
        Inl err \<Rightarrow> Inl err
      | Inr st \<Rightarrow>
          (case best_squad st of
             None \<Rightarrow> Inl (UnboundLocalError ''best_squad'')
           | Some b \<Rightarrow> Inr (b, [best_pid_out st], [best_pid_in st])))"

text \<open>
  The search as the specification words it, for comparison with the loop above. A
  candidate is feasible for a squad when it is not the removed player and \<open>add_player\<close>
  accepts it; the trial of a squad member removes the member, adds the first feasible
  candidate of the member's position and scores the result over the horizon.
\<close>

definition feasible :: "int \<Rightarrow> squad \<Rightarrow> player \<times> real \<Rightarrow> bool" where
  "feasible pid_out s c \<longleftrightarrow>
     player_id (fst c) \<noteq> pid_out \<and> fst (add_player (fst c) None True True s)"

definition squad_without :: "provider \<Rightarrow> squad \<Rightarrow> int list \<Rightarrow> player \<Rightarrow> squad" where
  "squad_without pv squad gameweek_range q =
     snd (remove_player (market_at pv (transfer_gw gameweek_range)) (player_id q) None squad)"

definition first_fit ::
  "provider \<Rightarrow> squad \<Rightarrow> string \<Rightarrow> int list \<Rightarrow> player \<Rightarrow> (player \<times> real) option" where
  "first_fit pv squad tag gameweek_range q =
     find (feasible (player_id q) (squad_without pv squad gameweek_range q))
       (get_predicted_points pv gameweek_range (position q) tag)"

definition transfer_trial ::
  "provider \<Rightarrow> squad \<Rightarrow> string \<Rightarrow> int list \<Rightarrow> int option \<Rightarrow> int option \<Rightarrow> player \<Rightarrow>
     ((player \<times> real) \<times> real \<times> squad) option" where
  "transfer_trial pv squad tag gameweek_range bb tc q =
     (case first_fit pv squad tag gameweek_range q of
        None \<Rightarrow> None
      | Some c \<Rightarrow>
          (case horizon_points (calc_predicted_points pv) tag (hd gameweek_range) bb tc
                  gameweek_range
                  (snd (add_player (fst c) None True True
                          (squad_without pv squad gameweek_range q))) 0 of
             Inl err \<Rightarrow> None
           | Inr (score, scored) \<Rightarrow> Some (c, score, scored)))"


text \<open>Candidates and a provider for evaluating the search on \<open>example_squad\<close>, which has
  nothing left in the bank: no price source answers, so a player sells at the purchase
  price.\<close>

definition example_candidates :: "position \<Rightarrow> (player \<times> real) list" where
  "example_candidates pos =
     (case pos of
        GK \<Rightarrow> [(example_player_pts 21 ''X'' GK 700 20, 40), (example_player_pts 1 ''A'' GK 40 6, 12),
               (example_player_pts 22 ''A'' GK 40 5, 10), (example_player_pts 28 ''V'' GK 40 1, 2)]
      | DEF \<Rightarrow> [(example_player_pts 23 ''X'' DEF 45 12, 24),
                (example_player_pts 3 ''A'' DEF 40 10, 20),
                (example_player_pts 27 ''W'' DEF 40 1, 2)]
      | MID \<Rightarrow> [(example_player_pts 24 ''A'' MID 40 30, 60),
                (example_player_pts 25 ''Y'' MID 40 16, 32)]
      | FWD \<Rightarrow> [(example_player_pts 26 ''Z'' FWD 40 20, 40)])"

definition example_provider :: provider where
  "example_provider =
     \<lparr>market_at = (\<lambda>_. no_market), calc_predicted_points = keep_predictions,
      get_predicted_points = (\<lambda>gameweeks pos tag. example_candidates pos),
      NEXT_GAMEWEEK = 1\<rparr>"

text \<open>The same provider with a ranked list of goalkeepers that holds one candidate, who
  costs more than the squad can raise: no goalkeeper of the example squad has a feasible
  replacement, every other member has one.\<close>

definition example_candidates_no_keeper :: "position \<Rightarrow> (player \<times> real) list" where
  "example_candidates_no_keeper pos =
     (case pos of
        GK \<Rightarrow> [(example_player_pts 21 ''X'' GK 700 20, 40)]
      | DEF \<Rightarrow> example_candidates DEF
      | MID \<Rightarrow> example_candidates MID
      | FWD \<Rightarrow> example_candidates FWD)"

definition example_provider_no_keeper :: provider where
  "example_provider_no_keeper =
     \<lparr>market_at = (\<lambda>_. no_market), calc_predicted_points = keep_predictions,
      get_predicted_points = (\<lambda>gameweeks pos tag. example_candidates_no_keeper pos),
      NEXT_GAMEWEEK = 1\<rparr>"


section \<open>Applying a strategy (framework/optimization_utils.py)\<close>

text \<open>
  \<open>get_starting_squad\<close> replays the transactions that are not flagged free-hit-only, in
  the order of their ids. A purchase resolves the player id to a \<open>CandidatePlayer\<close> for
  the season and gameweek of the transaction (the constructor is outside the modelled sources) and
  runs neither the budget nor the team check.
\<close>

record transaction =
  trans_player_id :: int
  bought_or_sold :: int
  trans_price :: int
  trans_season :: string
  trans_gameweek :: int

fun replay :: "market \<Rightarrow> (int \<Rightarrow> string \<Rightarrow> int \<Rightarrow> player) \<Rightarrow> transaction list \<Rightarrow> squad \<Rightarrow> squad" where
  "replay mk candidate [] s = s"
| "replay mk candidate (tr # rest) s =
     (if bought_or_sold tr = - 1
      then replay mk candidate rest
             (snd (remove_player mk (trans_player_id tr) (Some (trans_price tr)) s))
      else replay mk candidate rest
             (snd (add_player
                     (candidate (trans_player_id tr) (trans_season tr) (trans_gameweek tr))
                     (Some (trans_price tr)) False False s)))"

text \<open>
  What \<open>apply_strategy\<close> calls besides the single-transfer search: the transaction log and
  the player constructor behind \<open>get_starting_squad\<close>, \<open>get_squad_value\<close> (outside this
  file; Python passes it whatever object the variable holds, a squad or a list of ids),
  the double-transfer search, and the two randomised searches \<open>make_new_squad\<close> and
  \<open>make_random_transfers\<close>, which return \<open>None\<close> for the squad when no trial scored above 0.
  The three searches are taken as given functions.
\<close>

datatype squad_arg = SquadArg squad | IdListArg "int list"

record engine =
  data :: provider
  transactions :: "transaction list"
  candidate_player :: "int \<Rightarrow> string \<Rightarrow> int \<Rightarrow> player"
  get_squad_value :: "squad_arg \<Rightarrow> error + int"
  make_optimum_double_transfer ::
    "squad \<Rightarrow> string \<Rightarrow> int list \<Rightarrow> int option \<Rightarrow> int option \<Rightarrow> error + (squad \<times> int list \<times> int list)"
  make_new_squad ::
    "int \<Rightarrow> int \<Rightarrow> string \<Rightarrow> int list \<Rightarrow> int option \<Rightarrow> int option \<Rightarrow> error + squad option"
  make_random_transfers ::
    "squad \<Rightarrow> string \<Rightarrow> py_value \<Rightarrow> int list \<Rightarrow> int \<Rightarrow> int option \<Rightarrow> int option \<Rightarrow>
       error + (squad option \<times> int list \<times> int list)"

definition get_starting_squad :: "engine \<Rightarrow> squad" where
  "get_starting_squad eng =
     replay (market_at (data eng) (NEXT_GAMEWEEK (data eng))) (candidate_player eng)
       (transactions eng) (Squad 1000)"

text \<open>The dictionary \<open>strategy_output\<close>, and the variables of the loop over the gameweeks.
  \<open>rp\<close> and \<open>ap\<close> are unbound (\<open>None\<close>) until a branch assigns them.\<close>

record strategy_output =
  so_total_score :: real
  so_points_per_gw :: "(int \<times> real) list"
  so_players_in :: "(int \<times> int list) list"
  so_players_out :: "(int \<times> int list) list"
  so_cards_played :: "(int \<times> string option) list"

record strategy_state =
  new_squad :: squad
  squad_before_free_hit :: "squad option"
  rp :: "int list option"
  ap :: "int list option"
  strategy_output :: strategy_output

text \<open>\<open>for gw, n_transfers in strat[0].items()\<close>: which gameweek plays the bench boost
  and which the triple captain.\<close>

fun chip_gameweeks ::
  "(int \<times> py_value) list \<Rightarrow> int option \<Rightarrow> int option \<Rightarrow> int option \<times> int option" where
  "chip_gameweeks [] bench_boost_gw triple_captain_gw = (bench_boost_gw, triple_captain_gw)"
| "chip_gameweeks ((gw, n_transfers) # rest) bench_boost_gw triple_captain_gw =
     (if n_transfers \<in> set [PyStr ''B0'', PyStr ''B1'']
      then chip_gameweeks rest (Some gw) triple_captain_gw
      else if n_transfers \<in> set [PyStr ''T0'', PyStr ''T1'']
      then chip_gameweeks rest bench_boost_gw (Some gw)
      else chip_gameweeks rest bench_boost_gw triple_captain_gw)"

text \<open>\<open>if squad_before_free_hit: new_squad = fastcopy(squad_before_free_hit);
  squad_before_free_hit = None\<close> (a squad object is always true).\<close>

definition restore :: "strategy_state \<Rightarrow> strategy_state" where
  "restore st =
     (case squad_before_free_hit st of
        None \<Rightarrow> st
      | Some sq \<Rightarrow> st\<lparr>new_squad := sq, squad_before_free_hit := None\<rparr>)"

text \<open>The branches on \<open>strat[0][gw]\<close>, in the order of the source. A \<open>None\<close> squad
  from a randomised search fails at the next attribute access.\<close>

definition apply_directive ::
  "engine \<Rightarrow> string \<Rightarrow> int \<Rightarrow> int option \<Rightarrow> int option \<Rightarrow> py_value \<Rightarrow> int \<Rightarrow> int list \<Rightarrow>
     strategy_state \<Rightarrow> error + strategy_state" where
  "apply_directive eng tag num_iter bench_boost_gw triple_captain_gw n_transfers gw gw_range st =
     (if n_transfers = PyInt 0 then Inr (st\<lparr>rp := Some [], ap := Some []\<rparr>)
      else if n_transfers = PyInt 1 then
        (case make_optimum_single_transfer (data eng) (new_squad st) tag gw_range
                bench_boost_gw triple_captain_gw of
           Inl err \<Rightarrow> Inl err
         | Inr (sq, r, a) \<Rightarrow> Inr (st\<lparr>new_squad := sq, rp := Some r, ap := Some a\<rparr>))
      else if n_transfers = PyInt 2 then
        (case make_optimum_double_transfer eng (new_squad st) tag gw_range
                bench_boost_gw triple_captain_gw of
           Inl err \<Rightarrow> Inl err
         | Inr (sq, r, a) \<Rightarrow> Inr (st\<lparr>new_squad := sq, rp := Some r, ap := Some a\<rparr>))
      else if n_transfers = PyStr ''W'' then
        (let r = map player_id (players (new_squad st)) in
         case get_squad_value eng (SquadArg (new_squad st)) of
           Inl err \<Rightarrow> Inl err
         | Inr squad_value \<Rightarrow>
        (case make_new_squad eng squad_value num_iter tag gw_range
                bench_boost_gw triple_captain_gw of
           Inl err \<Rightarrow> Inl err
         | Inr None \<Rightarrow> Inl AttributeError
         | Inr (Some sq) \<Rightarrow>
             Inr (st\<lparr>new_squad := sq, rp := Some r, ap := Some (map player_id (players sq))\<rparr>)))
      else if n_transfers = PyStr ''F'' then
        (let before = new_squad st;
             ids = map player_id (players (new_squad st)) in
         case get_squad_value eng (IdListArg ids) of
           Inl err \<Rightarrow> Inl err
         | Inr squad_value \<Rightarrow>
        (case make_new_squad eng squad_value num_iter tag [gw]
                bench_boost_gw triple_captain_gw of
           Inl err \<Rightarrow> Inl err
         | Inr None \<Rightarrow> Inl AttributeError
         | Inr (Some sq) \<Rightarrow>
             Inr (st\<lparr>squad_before_free_hit := Some before, new_squad := sq,
                    ap := Some (map player_id (players sq))\<rparr>)))
      else if n_transfers \<in> set [PyStr ''B0'', PyStr ''T0'']
      then Inr (st\<lparr>rp := Some [], ap := Some []\<rparr>)
      else if n_transfers \<in> set [PyStr ''B1'', PyStr ''T1''] then
        (case make_optimum_single_transfer (data eng) (new_squad st) tag gw_range
                bench_boost_gw triple_captain_gw of
           Inl err \<Rightarrow> Inl err
         | Inr (sq, r, a) \<Rightarrow> Inr (st\<lparr>new_squad := sq, rp := Some r, ap := Some a\<rparr>))
      else
        (case make_random_transfers eng (new_squad st) tag n_transfers gw_range num_iter
                bench_boost_gw triple_captain_gw of
           Inl err \<Rightarrow> Inl err
         | Inr (None, r, a) \<Rightarrow> Inl AttributeError
         | Inr (Some sq, r, a) \<Rightarrow> Inr (st\<lparr>new_squad := sq, rp := Some r, ap := Some a\<rparr>)))"

text \<open>\<open>strat[0][gw][0] if isinstance(strat[0][gw], str) else None\<close>\<close>

fun card_played :: "py_value \<Rightarrow> error + string option" where
  "card_played (PyInt n) = Inr None"
| "card_played (PyStr []) = Inl IndexError"
| "card_played (PyStr (c # cs)) = Inr (Some [c])"

text \<open>\<open>baseline_dict and baseline_dict[gw] - strategy_output["total_score"] > 5\<close>\<close>

definition below_baseline :: "(int \<times> real) list option \<Rightarrow> int \<Rightarrow> real \<Rightarrow> error + bool" where
  "below_baseline baseline_dict gw tot =
     (case baseline_dict of
        None \<Rightarrow> Inr False
      | Some [] \<Rightarrow> Inr False
      | Some b \<Rightarrow> (case map_of b gw of
                    None \<Rightarrow> Inl KeyError
                  | Some v \<Rightarrow> Inr (v - tot > 5)))"

text \<open>
  The body of \<open>for igw, gw in enumerate(gameweeks)\<close>, with \<open>gw_range = gameweeks[igw:]\<close>.
  The flag returned is True when the body ends in the \<open>break\<close>.
\<close>

definition gameweek_step ::
  "engine \<Rightarrow> (int \<times> py_value) list \<Rightarrow> string \<Rightarrow> (int \<times> real) list option \<Rightarrow> int \<Rightarrow>
     int option \<Rightarrow> int option \<Rightarrow> int \<Rightarrow> int list \<Rightarrow> strategy_state \<Rightarrow>
     error + (bool \<times> strategy_state)" where
  "gameweek_step eng strat0 tag baseline_dict num_iter bb tc gw gw_range st =
     (case map_of strat0 gw of
        None \<Rightarrow> Inl KeyError
      | Some n_transfers \<Rightarrow>
     (case apply_directive eng tag num_iter bb tc n_transfers gw gw_range (restore st) of
        Inl err \<Rightarrow> Inl err
      | Inr st1 \<Rightarrow>
     (case get_expected_points (calc_predicted_points (data eng)) (new_squad st1) gw tag
             (Some gw = bb) (Some gw \<noteq> bb \<and> Some gw = tc) of
        Inl err \<Rightarrow> Inl err
      | Inr (pts, sq) \<Rightarrow>
     (case get_discount_factor (hd gw_range) gw ''exp'' (14 / 15) of
        Inl err \<Rightarrow> Inl err
      | Inr d \<Rightarrow>
     (let score = pts * d;
          out1 = (strategy_output st1)
                   \<lparr>so_total_score := so_total_score (strategy_output st1) + score\<rparr>;
          st2 = st1\<lparr>new_squad := sq, strategy_output := out1\<rparr>
      in case below_baseline baseline_dict gw (so_total_score out1) of
        Inl err \<Rightarrow> Inl err
      | Inr True \<Rightarrow> Inr (True, st2)
      | Inr False \<Rightarrow>
     (case card_played n_transfers of
        Inl err \<Rightarrow> Inl err
      | Inr chip \<Rightarrow>
     (case ap st2 of
        None \<Rightarrow> Inl (UnboundLocalError ''ap'')
      | Some a \<Rightarrow>
     (case rp st2 of
        None \<Rightarrow> Inl (UnboundLocalError ''rp'')
      | Some r \<Rightarrow>
          Inr (False,
            st2\<lparr>strategy_output := out1
               \<lparr>so_points_per_gw := so_points_per_gw out1 @ [(gw, score)],
                so_cards_played := so_cards_played out1 @ [(gw, chip)],
                so_players_in := so_players_in out1 @ [(gw, a)],
                so_players_out := so_players_out out1 @ [(gw, r)]\<rparr>\<rparr>)))))))))"

fun strategy_loop ::
  "engine \<Rightarrow> (int \<times> py_value) list \<Rightarrow> string \<Rightarrow> (int \<times> real) list option \<Rightarrow> int \<Rightarrow>
     int option \<Rightarrow> int option \<Rightarrow> int list \<Rightarrow> strategy_state \<Rightarrow> error + strategy_state" where
  "strategy_loop eng strat0 tag baseline_dict num_iter bb tc [] st = Inr st"
| "strategy_loop eng strat0 tag baseline_dict num_iter bb tc (gw # rest) st =
     (case gameweek_step eng strat0 tag baseline_dict num_iter bb tc gw (gw # rest) st of
        Inl err \<Rightarrow> Inl err
      | Inr (True, st') \<Rightarrow> Inr st'
      | Inr (False, st') \<Rightarrow> strategy_loop eng strat0 tag baseline_dict num_iter bb tc rest st')"

text \<open>
  \<open>apply_strategy(strat, tag, baseline_dict, num_iter)\<close>, with \<open>strat\<close> the pair of the
  dictionary gameweek \<open>\<rightarrow>\<close> directive and the points hit. The result \<open>None\<close> is the empty
  dictionary returned when the total score is not above 0.
\<close>

definition initial_state :: "engine \<Rightarrow> real \<Rightarrow> strategy_state" where
  "initial_state eng hit =
     \<lparr>new_squad = get_starting_squad eng, squad_before_free_hit = None, rp = None, ap = None,
      strategy_output = \<lparr>so_total_score = - 1 * hit, so_points_per_gw = [], so_players_in = [],
                so_players_out = [], so_cards_played = []\<rparr>\<rparr>"

definition apply_strategy ::
  "engine \<Rightarrow> (int \<times> py_value) list \<times> real \<Rightarrow> string \<Rightarrow> (int \<times> real) list option \<Rightarrow> int \<Rightarrow>
     error + strategy_output option" where
  "apply_strategy eng strat tag baseline_dict num_iter =
     (let gameweeks = sort (map fst (fst strat));
          chips = chip_gameweeks (fst strat) None None
      in case strategy_loop eng (fst strat) tag baseline_dict num_iter (fst chips) (snd chips)
                gameweeks (initial_state eng (snd strat)) of
           Inl err \<Rightarrow> Inl err
         | Inr st \<Rightarrow>
             if so_total_score (strategy_output st) > 0 then Inr (Some (strategy_output st)) else Inr None)"

text \<open>The squad in effect at a gameweek, before its directive is applied: the one the
  directive is applied to.\<close>

definition squad_in_effect :: "strategy_state \<Rightarrow> squad" where
  "squad_in_effect st = new_squad (restore st)"

text \<open>An engine for evaluation whose \<open>get_squad_value\<close> answers for a list of ids as
  for a squad, and whose squad construction returns the example squad.\<close>

definition example_engine :: engine where
  "example_engine =
     \<lparr>data = example_provider, transactions = [], candidate_player = (\<lambda>pid season gw.
        example_player pid [] GK 0),
      get_squad_value = (\<lambda>_. Inr 1000),
      make_optimum_double_transfer = (\<lambda>s tag gws bb tc. Inl (RuntimeError [])),
      make_new_squad = (\<lambda>b n tag gws bb tc. Inr (Some example_squad)),
      make_random_transfers = (\<lambda>s tag n gws k bb tc. Inl (RuntimeError []))\<rparr>"


section \<open>add_player on objects (framework/squad.py)\<close>

text \<open>
  \<open>add_player\<close> on objects. Python hands \<open>add_player\<close> a reference, and the line
  \<open>player.purchase_price = price\<close> writes into the object referred to, before any
  check. Whether the squad sees that write depends on whether the object is one of the
  squad's own players, so here the player objects live in a store (address \<open>\<rightarrow>\<close> object),
  the squad holds the addresses of its players, and the candidate is an address. A
  candidate built by the constructor from an id, a name or a database row is an object
  at an address the squad does not hold.
\<close>

type_synonym store = "nat \<Rightarrow> player"

record squad_object =
  player_refs :: "nat list"
  object_budget :: int
  object_num_position :: "position \<Rightarrow> int"
  object_free_subs :: int
  object_subs_this_week :: int
  object_verbose :: bool

text \<open>The squad as a value: the objects its references lead to.\<close>

definition squad_of :: "store \<Rightarrow> squad_object \<Rightarrow> squad" where
  "squad_of st so =
     \<lparr>players = map st (player_refs so), budget = object_budget so,
      num_position = object_num_position so, free_subs = object_free_subs so,
      subs_this_week = object_subs_this_week so, verbose = object_verbose so\<rparr>"

text \<open>\<open>if price: player.purchase_price = price\<close>\<close>

definition write_price :: "store \<Rightarrow> nat \<Rightarrow> int option \<Rightarrow> store" where
  "write_price st r price =
     (if truthy price then st(r := (st r)\<lparr>purchase_price := the price\<rparr>) else st)"

definition add_player_store ::
  "nat \<Rightarrow> int option \<Rightarrow> bool \<Rightarrow> bool \<Rightarrow> store \<Rightarrow> squad_object \<Rightarrow>
     add_outcome \<times> store \<times> squad_object" where
  "add_player_store r price check_budget check_team st so =
     (let st1 = write_price st r price;
          pl = st1 r;
          s1 = squad_of st1 so in
      if \<not> check_no_duplicate_player s1 pl then (AlreadyInTeam, st1, so)
      else if \<not> check_num_in_position s1 pl then (TooManyInPosition, st1, so)
      else if check_budget \<and> \<not> check_cost s1 pl then (CannotAfford, st1, so)
      else if check_team \<and> \<not> check_num_per_team s1 pl then (TooManyFromTeam, st1, so)
      else (Added, st1,
            so\<lparr>player_refs := player_refs so @ [r],
               object_num_position := (object_num_position so)
                 (position pl := object_num_position so (position pl) + 1),
               object_budget := object_budget so - purchase_price pl\<rparr>))"

text \<open>A store and a squad object for evaluation: the squad holds the objects at the
  addresses 0, 1 and 2 (two goalkeepers and a defender of team A) and has 10 in the
  bank; the addresses from 3 on hold candidates.\<close>

definition example_store :: store where
  "example_store =
     (\<lambda>_. example_player 4 ''B'' MID 5)
       (0 := example_player 1 ''A'' GK 40, 1 := example_player 2 ''A'' GK 40,
        2 := example_player 3 ''A'' DEF 40, 3 := example_player 1 ''B'' MID 5,
        4 := example_player 4 ''B'' GK 5, 5 := example_player 4 ''A'' MID 5)"

definition example_squad_object :: squad_object where
  "example_squad_object =
     \<lparr>player_refs = [0, 1, 2], object_budget = 10,
      object_num_position = (\<lambda>_. 0)(GK := 2, DEF := 1), object_free_subs = 0,
      object_subs_this_week = 0, object_verbose = False\<rparr>"


section \<open>Properties of the squad operations\<close>

lemma no_duplicate_loop_iff: "no_duplicate_loop pid ps \<longleftrightarrow> pid \<notin> player_id ` set ps"
  by (induction ps) auto

lemma num_per_team_loop_iff:
  "n \<le> 2 \<Longrightarrow>
     num_per_team_loop t ps n \<longleftrightarrow> n + length (filter (\<lambda>p. team p = t) ps) < 3"
  by (induction ps arbitrary: n) auto

lemma check_num_per_team_iff: "check_num_per_team s pl \<longleftrightarrow> team_count (team pl) s < 3"
  by (simp add: check_num_per_team_def team_count_def num_per_team_loop_iff)

lemma find_player_member:
  "find_player pid ps = Some p \<Longrightarrow> p \<in> set ps \<and> player_id p = pid"
  by (induction ps) (auto split: if_splits)

lemma find_player_distinct:
  "distinct (map player_id ps) \<Longrightarrow> p \<in> set ps \<Longrightarrow> find_player (player_id p) ps = Some p"
  by (induction ps) (auto simp: rev_image_eqI)

lemma sell_price_rule:
  "get_sell_price_for_player mk p =
     (if current_price mk p \<le> purchase_price p then current_price mk p
      else (current_price mk p + purchase_price p) div 2)"
  by (simp add: get_sell_price_for_player_def Let_def)

subsection \<open>C8: the checks of add_player, their order, and the frame\<close>

lemma write_price_other: "r' \<noteq> r \<Longrightarrow> write_price st r price r' = st r'"
  by (simp add: write_price_def)

lemma write_price_candidate: "write_price st r price r = with_price (st r) price"
  by (simp add: write_price_def with_price_def)

lemma map_write_price:
  "r \<notin> set refs \<or> \<not> truthy price \<Longrightarrow> map (write_price st r price) refs = map st refs"
  by (auto simp: write_price_def)

lemma squad_of_write_price:
  "r \<notin> set (player_refs so) \<or> \<not> truthy price \<Longrightarrow>
     squad_of (write_price st r price) so = squad_of st so"
  by (simp add: squad_of_def map_write_price)

text \<open>
  On a candidate object that the squad does not hold, and on any candidate when no price
  is given, \<open>add_player\<close> on objects does to the squad's values what \<open>add_player_outcome\<close>
  does: the functions on values are the source on those calls.
\<close>

lemma add_player_store_value:
  assumes "r \<notin> set (player_refs so) \<or> \<not> truthy price"
  shows "(case add_player_store r price cb ct st so of
            (out, st', so') \<Rightarrow> (out, squad_of st' so'))
         = add_player_outcome (st r) price cb ct (squad_of st so)"
proof -
  have s: "squad_of (write_price st r price) so = squad_of st so"
    using assms by (rule squad_of_write_price)
  have m: "map (write_price st r price) (player_refs so) = map st (player_refs so)"
    using assms by (rule map_write_price)
  have u: "squad_of (write_price st r price)
             (so\<lparr>player_refs := player_refs so @ [r], object_num_position := f,
                 object_budget := b\<rparr>)
           = (squad_of st so)\<lparr>players := players (squad_of st so) @ [with_price (st r) price],
                 num_position := f, budget := b\<rparr>" for f b
    by (simp add: squad_of_def m write_price_candidate)
  show ?thesis
    by (simp add: add_player_store_def add_player_outcome_def Let_def s u
        write_price_candidate)
       (simp add: squad_of_def)
qed

text \<open>
  Claim C8, as the code has it. \<open>add_player\<close> first writes a given price into the
  candidate object, then tests, in this order, the duplicate id, the position quota, the
  budget (when \<open>check_budget\<close>) and the team quota (when \<open>check_team\<close>): the return that is
  reached is the one of the first failing test. Every failure returns False and leaves
  the squad's list of players, its position counts and its budget as they were, and no
  object but the candidate is written; so the squad is unchanged as a whole when the
  candidate is not one of its players or no price is given. Only when every enabled test
  passes is the candidate appended, the count of its position incremented by one and the
  budget debited by its purchase price, and True returned.
\<close>

theorem add_player_store_order_and_frame:
  "(\<not> check_no_duplicate_player (squad_of (write_price st r price) so)
        (write_price st r price r) \<longrightarrow>
       add_player_store r price cb ct st so = (AlreadyInTeam, write_price st r price, so)) \<and>
   (check_no_duplicate_player (squad_of (write_price st r price) so)
        (write_price st r price r) \<and>
    \<not> check_num_in_position (squad_of (write_price st r price) so)
        (write_price st r price r) \<longrightarrow>
       add_player_store r price cb ct st so
         = (TooManyInPosition, write_price st r price, so)) \<and>
   (check_no_duplicate_player (squad_of (write_price st r price) so)
        (write_price st r price r) \<and>
    check_num_in_position (squad_of (write_price st r price) so)
        (write_price st r price r) \<and>
    cb \<and> \<not> check_cost (squad_of (write_price st r price) so) (write_price st r price r) \<longrightarrow>
       add_player_store r price cb ct st so = (CannotAfford, write_price st r price, so)) \<and>
   (check_no_duplicate_player (squad_of (write_price st r price) so)
        (write_price st r price r) \<and>
    check_num_in_position (squad_of (write_price st r price) so)
        (write_price st r price r) \<and>
    (cb \<longrightarrow> check_cost (squad_of (write_price st r price) so) (write_price st r price r)) \<and>
    ct \<and> \<not> check_num_per_team (squad_of (write_price st r price) so)
        (write_price st r price r) \<longrightarrow>
       add_player_store r price cb ct st so
         = (TooManyFromTeam, write_price st r price, so)) \<and>
   (check_no_duplicate_player (squad_of (write_price st r price) so)
        (write_price st r price r) \<and>
    check_num_in_position (squad_of (write_price st r price) so)
        (write_price st r price r) \<and>
    (cb \<longrightarrow> check_cost (squad_of (write_price st r price) so) (write_price st r price r)) \<and>
    (ct \<longrightarrow> check_num_per_team (squad_of (write_price st r price) so)
        (write_price st r price r)) \<longrightarrow>
       add_player_store r price cb ct st so =
         (Added, write_price st r price,
          so\<lparr>player_refs := player_refs so @ [r],
             object_num_position := (object_num_position so)
               (position (write_price st r price r) :=
                  object_num_position so (position (write_price st r price r)) + 1),
             object_budget := object_budget so
               - purchase_price (write_price st r price r)\<rparr>)) \<and>
   (fst (add_player_store r price cb ct st so) \<noteq> Added \<longrightarrow>
       snd (snd (add_player_store r price cb ct st so)) = so \<and>
       (\<forall>r'. r' \<noteq> r \<longrightarrow> fst (snd (add_player_store r price cb ct st so)) r' = st r') \<and>
       (r \<notin> set (player_refs so) \<or> \<not> truthy price \<longrightarrow>
          squad_of (fst (snd (add_player_store r price cb ct st so)))
                   (snd (snd (add_player_store r price cb ct st so)))
            = squad_of st so)) \<and>
   write_price st r price r = with_price (st r) price"
proof -
  have a: "r \<notin> set (player_refs so) \<or> \<not> truthy price \<longrightarrow>
             squad_of (write_price st r price) so = squad_of st so"
    using squad_of_write_price by blast
  have b: "\<forall>r'. r' \<noteq> r \<longrightarrow> write_price st r price r' = st r'"
    by (simp add: write_price_other)
  have f: "fst (add_player_store r price cb ct st so) \<noteq> Added \<longrightarrow>
       snd (snd (add_player_store r price cb ct st so)) = so \<and>
       fst (snd (add_player_store r price cb ct st so)) = write_price st r price"
    by (simp add: add_player_store_def Let_def)
  have g: "fst (add_player_store r price cb ct st so) \<noteq> Added \<longrightarrow>
       snd (snd (add_player_store r price cb ct st so)) = so \<and>
       (\<forall>r'. r' \<noteq> r \<longrightarrow> fst (snd (add_player_store r price cb ct st so)) r' = st r') \<and>
       (r \<notin> set (player_refs so) \<or> \<not> truthy price \<longrightarrow>
          squad_of (fst (snd (add_player_store r price cb ct st so)))
                   (snd (snd (add_player_store r price cb ct st so)))
            = squad_of st so)"
    using f a b by metis
  have c: "write_price st r price r = with_price (st r) price"
    by (rule write_price_candidate)
  have o: "(\<not> check_no_duplicate_player (squad_of (write_price st r price) so)
        (write_price st r price r) \<longrightarrow>
       add_player_store r price cb ct st so = (AlreadyInTeam, write_price st r price, so)) \<and>
   (check_no_duplicate_player (squad_of (write_price st r price) so)
        (write_price st r price r) \<and>
    \<not> check_num_in_position (squad_of (write_price st r price) so)
        (write_price st r price r) \<longrightarrow>
       add_player_store r price cb ct st so
         = (TooManyInPosition, write_price st r price, so)) \<and>
   (check_no_duplicate_player (squad_of (write_price st r price) so)
        (write_price st r price r) \<and>
    check_num_in_position (squad_of (write_price st r price) so)
        (write_price st r price r) \<and>
    cb \<and> \<not> check_cost (squad_of (write_price st r price) so) (write_price st r price r) \<longrightarrow>
       add_player_store r price cb ct st so = (CannotAfford, write_price st r price, so)) \<and>
   (check_no_duplicate_player (squad_of (write_price st r price) so)
        (write_price st r price r) \<and>
    check_num_in_position (squad_of (write_price st r price) so)
        (write_price st r price r) \<and>
    (cb \<longrightarrow> check_cost (squad_of (write_price st r price) so) (write_price st r price r)) \<and>
    ct \<and> \<not> check_num_per_team (squad_of (write_price st r price) so)
        (write_price st r price r) \<longrightarrow>
       add_player_store r price cb ct st so
         = (TooManyFromTeam, write_price st r price, so)) \<and>
   (check_no_duplicate_player (squad_of (write_price st r price) so)
        (write_price st r price r) \<and>
    check_num_in_position (squad_of (write_price st r price) so)
        (write_price st r price r) \<and>
    (cb \<longrightarrow> check_cost (squad_of (write_price st r price) so) (write_price st r price r)) \<and>
    (ct \<longrightarrow> check_num_per_team (squad_of (write_price st r price) so)
        (write_price st r price r)) \<longrightarrow>
       add_player_store r price cb ct st so =
         (Added, write_price st r price,
          so\<lparr>player_refs := player_refs so @ [r],
             object_num_position := (object_num_position so)
               (position (write_price st r price r) :=
                  object_num_position so (position (write_price st r price r)) + 1),
             object_budget := object_budget so
               - purchase_price (write_price st r price r)\<rparr>))"
    by (simp add: add_player_store_def Let_def)
  show ?thesis using o g c by blast
qed

text \<open>
  The claim as stated fails where the candidate is one of the squad's own players and a
  price is given: \<open>add_player(member, price=99)\<close> returns False on the duplicate id, and
  the member, bought at 40, now carries the purchase price 99.
\<close>

theorem add_player_store_counterexample:
  "fst (add_player_store 0 (Some 99) True True example_store example_squad_object)
     = AlreadyInTeam \<and>
   map purchase_price (players (squad_of example_store example_squad_object))
     = [40, 40, 40] \<and>
   map purchase_price
     (players (squad_of
        (fst (snd (add_player_store 0 (Some 99) True True example_store
                     example_squad_object)))
        (snd (snd (add_player_store 0 (Some 99) True True example_store
                     example_squad_object)))))
     = [99, 40, 40]"
  by (simp add: add_player_store_def Let_def write_price_def squad_of_def example_store_def
      example_squad_object_def example_player_def check_no_duplicate_player_def)

text \<open>One call for each of the five returns, with candidates the squad does not hold.\<close>

theorem add_player_store_order_and_frame_witness:
  "add_player_store 3 None True True example_store example_squad_object
     = (AlreadyInTeam, example_store, example_squad_object) \<and>
   add_player_store 4 None True True example_store example_squad_object
     = (TooManyInPosition, example_store, example_squad_object) \<and>
   fst (add_player_store 5 (Some 50) True True example_store example_squad_object)
     = CannotAfford \<and>
   squad_of (fst (snd (add_player_store 5 (Some 50) True True example_store
                         example_squad_object)))
            (snd (snd (add_player_store 5 (Some 50) True True example_store
                         example_squad_object)))
     = squad_of example_store example_squad_object \<and>
   fst (add_player_store 5 (Some 50) False True example_store example_squad_object)
     = TooManyFromTeam \<and>
   fst (add_player_store 6 (Some 7) True True example_store example_squad_object) = Added \<and>
   player_refs (snd (snd (add_player_store 6 (Some 7) True True example_store
                            example_squad_object))) = [0, 1, 2, 6] \<and>
   object_budget (snd (snd (add_player_store 6 (Some 7) True True example_store
                              example_squad_object))) = 3 \<and>
   object_num_position (snd (snd (add_player_store 6 (Some 7) True True example_store
                              example_squad_object))) MID = 1"
  using
    add_player_store_order_and_frame [of example_store 3 None example_squad_object True True]
    add_player_store_order_and_frame [of example_store 4 None example_squad_object True True]
    add_player_store_order_and_frame
      [of example_store 5 "Some 50" example_squad_object True True]
    add_player_store_order_and_frame
      [of example_store 5 "Some 50" example_squad_object False True]
    add_player_store_order_and_frame
      [of example_store 6 "Some 7" example_squad_object True True]
  by (simp add: write_price_def squad_of_def example_store_def example_squad_object_def
      example_player_def check_no_duplicate_player_def check_num_in_position_def
      check_cost_def check_num_per_team_def with_price_def)


subsection \<open>C7: what remove_player credits\<close>

text \<open>
  Claim C7. For a member \<open>p\<close> of a squad (with distinct ids), \<open>remove_player\<close> without an
  explicit price succeeds and credits the budget with the current price when that is at
  most the purchase price, and otherwise with the midpoint of the two prices rounded down
  to an integer; the count of the position of \<open>p\<close> drops by exactly one, the other counts
  stay, and \<open>p\<close> leaves the list. The current price is the one the API or else the database
  gives.
\<close>

theorem remove_player_sale_price:
  assumes "p \<in> set (players s)" and "distinct (map player_id (players s))"
  shows "fst (remove_player mk (player_id p) None s) = True \<and>
     budget (snd (remove_player mk (player_id p) None s)) = budget s +
       (if current_price mk p \<le> purchase_price p then current_price mk p
        else (current_price mk p + purchase_price p) div 2) \<and>
     (purchase_price p < current_price mk p \<longrightarrow>
        2 * (budget (snd (remove_player mk (player_id p) None s)) - budget s)
          \<le> current_price mk p + purchase_price p \<and>
        current_price mk p + purchase_price p
          < 2 * (budget (snd (remove_player mk (player_id p) None s)) - budget s) + 2) \<and>
     num_position (snd (remove_player mk (player_id p) None s)) (position p)
       = num_position s (position p) - 1 \<and>
     (\<forall>pos. pos \<noteq> position p \<longrightarrow>
        num_position (snd (remove_player mk (player_id p) None s)) pos = num_position s pos) \<and>
     players (snd (remove_player mk (player_id p) None s)) = remove1 p (players s) \<and>
     (\<forall>c. api_now_cost mk (player_id p) = None \<and> db_price mk (player_id p) = Some c \<and>
        c \<noteq> 0 \<longrightarrow> current_price mk p = c)"
proof -
  have f: "find_player (player_id p) (players s) = Some p"
    using assms by (simp add: find_player_distinct)
  have c: "\<forall>c. api_now_cost mk (player_id p) = None \<and> db_price mk (player_id p) = Some c \<and>
        c \<noteq> 0 \<longrightarrow> current_price mk p = c"
    by (simp add: current_price_def Let_def)
  show ?thesis
    using c by (simp add: remove_player_def f sell_price_rule) linarith
qed

text \<open>Two sales at the database prices 55 and 58: a player bought at 50 is sold at
  52 (the midpoint 52.5 rounded down), one bought at 60 is sold at 58.\<close>

theorem remove_player_sale_price_witness:
  "budget (snd (remove_player \<lparr>api_now_cost = (\<lambda>_. None), db_price = [1 \<mapsto> 55, 2 \<mapsto> 58]\<rparr> 1 None
     ((Squad 100)\<lparr>players := [example_player 1 ''A'' GK 50, example_player 2 ''B'' DEF 60],
        num_position := (\<lambda>_. 0)(GK := 1, DEF := 1), budget := 10\<rparr>))) = 62 \<and>
   num_position (snd (remove_player \<lparr>api_now_cost = (\<lambda>_. None), db_price = [1 \<mapsto> 55, 2 \<mapsto> 58]\<rparr> 1 None
     ((Squad 100)\<lparr>players := [example_player 1 ''A'' GK 50, example_player 2 ''B'' DEF 60],
        num_position := (\<lambda>_. 0)(GK := 1, DEF := 1), budget := 10\<rparr>))) GK = 0 \<and>
   budget (snd (remove_player \<lparr>api_now_cost = (\<lambda>_. None), db_price = [1 \<mapsto> 55, 2 \<mapsto> 58]\<rparr> 2 None
     ((Squad 100)\<lparr>players := [example_player 1 ''A'' GK 50, example_player 2 ''B'' DEF 60],
        num_position := (\<lambda>_. 0)(GK := 1, DEF := 1), budget := 10\<rparr>))) = 68 \<and>
   players (snd (remove_player \<lparr>api_now_cost = (\<lambda>_. None), db_price = [1 \<mapsto> 55, 2 \<mapsto> 58]\<rparr> 2 None
     ((Squad 100)\<lparr>players := [example_player 1 ''A'' GK 50, example_player 2 ''B'' DEF 60],
        num_position := (\<lambda>_. 0)(GK := 1, DEF := 1), budget := 10\<rparr>))) = [example_player 1 ''A'' GK 50]"
  using
    remove_player_sale_price [of "example_player 1 ''A'' GK 50"
      "(Squad 100)\<lparr>players := [example_player 1 ''A'' GK 50, example_player 2 ''B'' DEF 60],
        num_position := (\<lambda>_. 0)(GK := 1, DEF := 1), budget := 10\<rparr>"
      "\<lparr>api_now_cost = (\<lambda>_. None), db_price = [1 \<mapsto> 55, 2 \<mapsto> 58]\<rparr>"]
    remove_player_sale_price [of "example_player 2 ''B'' DEF 60"
      "(Squad 100)\<lparr>players := [example_player 1 ''A'' GK 50, example_player 2 ''B'' DEF 60],
        num_position := (\<lambda>_. 0)(GK := 1, DEF := 1), budget := 10\<rparr>"
      "\<lparr>api_now_cost = (\<lambda>_. None), db_price = [1 \<mapsto> 55, 2 \<mapsto> 58]\<rparr>"]
  by (simp add: Squad_def example_player_def current_price_def)


subsection \<open>C1: invariants of every sequence of calls\<close>

lemma TOTAL_nonneg: "0 \<le> TOTAL_PER_POSITION pos" by (cases pos) auto

lemma squad_inv_init: "squad_inv (Squad b)"
  by (simp add: squad_inv_def Squad_def position_count_def TOTAL_nonneg)

lemma distinct_ids_remove1:
  "distinct (map player_id xs) \<Longrightarrow> distinct (map player_id (remove1 p xs))"
proof (induction xs)
  case Nil then show ?case by simp
next
  case (Cons a xs)
  have "set (remove1 p xs) \<subseteq> set xs" by (rule set_remove1_subset)
  with Cons show ?case by auto
qed

lemma squad_inv_add: "squad_inv s \<Longrightarrow> squad_inv (snd (add_player p price cb ct s))"
  by (auto simp: squad_inv_def add_player_def add_player_outcome_def Let_def position_count_def
      check_no_duplicate_player_def no_duplicate_loop_iff check_num_in_position_def TOTAL_nonneg)

lemma length_filter_remove1_in:
  "p \<in> set xs \<Longrightarrow> P p \<Longrightarrow> Suc (length (filter P (remove1 p xs))) = length (filter P xs)"
  by (induction xs) auto

lemma length_filter_remove1_out:
  "\<not> P p \<Longrightarrow> length (filter P (remove1 p xs)) = length (filter P xs)"
  by (induction xs) auto

lemma position_count_remove:
  assumes "p \<in> set (players s)"
  shows "int (position_count pos (s\<lparr>players := remove1 p (players s)\<rparr>)) =
     int (position_count pos s) - (if position p = pos then 1 else 0)"
proof (cases "position p = pos")
  case True
  then show ?thesis
    using length_filter_remove1_in[OF assms, of "\<lambda>q. position q = pos"]
    by (simp add: position_count_def)
next
  case False
  then show ?thesis
    using length_filter_remove1_out[of "\<lambda>q. position q = pos" p "players s"]
    by (simp add: position_count_def)
qed

lemma position_count_upd [simp]:
  "position_count pos (s\<lparr>budget := b\<rparr>) = position_count pos s"
  "position_count pos (s\<lparr>num_position := f\<rparr>) = position_count pos s"
  by (simp_all add: position_count_def)

lemma squad_inv_remove:
  assumes "squad_inv s" shows "squad_inv (snd (remove_player mk pid price s))"
proof (cases "find_player pid (players s)")
  case None
  then show ?thesis using assms by (simp add: remove_player_def)
next
  case (Some p)
  then have mem: "p \<in> set (players s)" by (simp add: find_player_member)
  let ?s' = "snd (remove_player mk pid price s)"
  have pl: "players ?s' = remove1 p (players s)" and
     np: "num_position ?s' = (num_position s)(position p := num_position s (position p) - 1)"
    using Some by (simp_all add: remove_player_def)
  have pc: "int (position_count pos ?s') = int (position_count pos s) - (if position p = pos then 1 else 0)" for pos
    using position_count_remove[OF mem, of pos] pl by (simp add: position_count_def)
  have a: "num_position ?s' pos = int (position_count pos ?s')" for pos
    using assms by (simp add: pc np squad_inv_def)
  have b: "num_position ?s' pos \<le> TOTAL_PER_POSITION pos" for pos
    using assms by (auto simp add: np squad_inv_def) (smt (verit) assms squad_inv_def)
  have c: "distinct (map player_id (players ?s'))"
    using assms by (simp add: pl squad_inv_def distinct_ids_remove1)
  show ?thesis using a b c by (simp add: squad_inv_def)
qed

lemma squad_inv_run: "squad_inv s \<Longrightarrow> squad_inv (run_ops mk ops s)"
proof (induction ops arbitrary: s)
  case Nil then show ?case by simp
next
  case (Cons x xs)
  then show ?case by (cases x) (simp_all add: squad_inv_add squad_inv_remove)
qed

lemma length_filter_remove1_le: "length (filter P (remove1 p xs)) \<le> length (filter P xs)"
  by (induction xs) auto

lemma team_count_add:
  "team_checked (AddPlayer p price cb ct) \<Longrightarrow> \<forall>t. team_count t s \<le> 3 \<Longrightarrow>
     team_count t (snd (add_player p price cb ct s)) \<le> 3"
  by (auto simp: add_player_def add_player_outcome_def Let_def check_num_per_team_iff)
     (auto simp: team_count_def)

lemma team_count_remove:
  "\<forall>t. team_count t s \<le> 3 \<Longrightarrow> team_count t (snd (remove_player mk pid price s)) \<le> 3"
  using length_filter_remove1_le[of "\<lambda>p. team p = t" _ "players s"]
  by (auto simp: remove_player_def team_count_def split: option.splits intro: order_trans)

lemma team_count_run:
  "list_all team_checked ops \<Longrightarrow> \<forall>t. team_count t s \<le> 3 \<Longrightarrow>
     team_count t (run_ops mk ops s) \<le> 3"
proof (induction ops arbitrary: s t)
  case Nil then show ?case by simp
next
  case (Cons x xs)
  have "\<forall>t. team_count t (snd (apply_op mk x s)) \<le> 3"
    using Cons.prems by (cases x) (auto simp: team_count_add team_count_remove)
  then show ?case using Cons by simp
qed

lemma current_price_nonneg:
  "market_nonneg mk \<Longrightarrow> 0 \<le> purchase_price p \<Longrightarrow> 0 \<le> current_price mk p"
  by (cases "api_now_cost mk (player_id p)"; cases "db_price mk (player_id p)")
     (auto simp: current_price_def market_nonneg_def Let_def)

lemma sell_price_nonneg:
  "market_nonneg mk \<Longrightarrow> 0 \<le> purchase_price p \<Longrightarrow> 0 \<le> get_sell_price_for_player mk p"
  using current_price_nonneg[of mk p] by (auto simp: sell_price_rule)

lemma budget_inv_add:
  "budget_checked (AddPlayer p price cb ct) \<Longrightarrow> nonneg_prices (AddPlayer p price cb ct) \<Longrightarrow>
     budget_inv s \<Longrightarrow> budget_inv (snd (add_player p price cb ct s))"
  by (auto simp: add_player_def add_player_outcome_def Let_def budget_inv_def check_cost_def)

lemma list_all_remove1: "list_all P xs \<Longrightarrow> list_all P (remove1 p xs)"
  by (induction xs) auto

lemma budget_inv_remove:
  assumes "market_nonneg mk" "nonneg_prices (RemovePlayer pid price)" "budget_inv s"
  shows "budget_inv (snd (remove_player mk pid price s))"
proof (cases "find_player pid (players s)")
  case None then show ?thesis using assms by (simp add: remove_player_def)
next
  case (Some p)
  then have "p \<in> set (players s)" by (simp add: find_player_member)
  then have pp: "0 \<le> purchase_price p" using assms(3) by (simp add: budget_inv_def list_all_iff)
  have "0 \<le> (if truthy price then the price else get_sell_price_for_player mk p)"
    using assms(2) sell_price_nonneg[OF assms(1) pp] by (cases price) auto
  then show ?thesis using Some assms(3)
    by (simp add: remove_player_def budget_inv_def list_all_remove1)
qed

lemma budget_inv_run:
  "market_nonneg mk \<Longrightarrow> list_all budget_checked ops \<Longrightarrow> list_all nonneg_prices ops \<Longrightarrow>
     budget_inv s \<Longrightarrow> budget_inv (run_ops mk ops s)"
proof (induction ops arbitrary: s)
  case Nil then show ?case by simp
next
  case (Cons x xs)
  have "budget_inv (snd (apply_op mk x s))"
    using Cons.prems by (cases x) (auto simp: budget_inv_add budget_inv_remove)
  then show ?case using Cons by simp
qed

text \<open>
  Claim C1, as the code has it. From an empty squad, after any sequence of \<open>add_player\<close> and
  \<open>remove_player\<close> calls: no position count exceeds its quota (and each count is the
  number of members in the position); no two members share an id; when every
  \<open>add_player\<close> of the sequence ran the team check, at most 3 members share a team; and
  when the initial budget is non-negative, every \<open>add_player\<close> ran the budget check and
  all prices are non-negative, the budget is non-negative. On any squad, an
  \<open>add_player\<close> that runs the budget check and returns True leaves a non-negative budget.
\<close>

theorem squad_invariants:
  "(\<forall>pos. num_position (run_ops mk ops (Squad b)) pos \<le> TOTAL_PER_POSITION pos \<and>
          num_position (run_ops mk ops (Squad b)) pos
            = int (position_count pos (run_ops mk ops (Squad b)))) \<and>
   distinct (map player_id (players (run_ops mk ops (Squad b)))) \<and>
   (list_all team_checked ops \<longrightarrow> (\<forall>t. team_count t (run_ops mk ops (Squad b)) \<le> 3)) \<and>
   (0 \<le> b \<and> list_all budget_checked ops \<and> list_all nonneg_prices ops \<and> market_nonneg mk
      \<longrightarrow> 0 \<le> budget (run_ops mk ops (Squad b))) \<and>
   (fst (add_player p price True check_team s) \<longrightarrow>
      0 \<le> budget (snd (add_player p price True check_team s)))"
proof -
  have a: "fst (add_player p price True check_team s) \<longrightarrow>
      0 \<le> budget (snd (add_player p price True check_team s))"
    by (simp add: add_player_def add_player_outcome_def Let_def check_cost_def)
  have i: "squad_inv (run_ops mk ops (Squad b))"
    by (rule squad_inv_run) (rule squad_inv_init)
  have t: "list_all team_checked ops \<Longrightarrow> team_count t (run_ops mk ops (Squad b)) \<le> 3" for t
    by (rule team_count_run) (simp_all add: team_count_def Squad_def)
  have bi: "0 \<le> b \<Longrightarrow> budget_inv (Squad b)" by (simp add: budget_inv_def Squad_def)
  have u: "0 \<le> b \<Longrightarrow> list_all budget_checked ops \<Longrightarrow> list_all nonneg_prices ops \<Longrightarrow>
     market_nonneg mk \<Longrightarrow> 0 \<le> budget (run_ops mk ops (Squad b))"
    using budget_inv_run[of mk ops "Squad b"] bi by (simp add: budget_inv_def)
  have q: "num_position (run_ops mk ops (Squad b)) pos \<le> TOTAL_PER_POSITION pos" 
    and c: "num_position (run_ops mk ops (Squad b)) pos
            = int (position_count pos (run_ops mk ops (Squad b)))" 
    and d: "distinct (map player_id (players (run_ops mk ops (Squad b))))" for pos
    using i unfolding squad_inv_def by blast+
  show ?thesis using q c d t u a by blast
qed

text \<open>
  The claim as stated fails: a third player of a team is accepted with the team check on
  (\<open>check_num_per_team\<close> returns False only when it counts three members of the team), and
  an \<open>add_player\<close> without the budget check returns True and leaves a negative budget.
\<close>

theorem squad_invariants_counterexample:
  "fst (add_player (example_player 3 ''A'' MID 40) None True True
     (run_ops no_market [AddPlayer (example_player 1 ''A'' GK 40) None True True,
        AddPlayer (example_player 2 ''A'' DEF 40) None True True] (Squad 1000))) = True \<and>
   team_count ''A''
     (run_ops no_market [AddPlayer (example_player 1 ''A'' GK 40) None True True,
        AddPlayer (example_player 2 ''A'' DEF 40) None True True,
        AddPlayer (example_player 3 ''A'' MID 40) None True True] (Squad 1000)) = 3 \<and>
   fst (add_player (example_player 1 ''A'' GK 40) None False False (Squad 10)) = True \<and>
   budget (run_ops no_market [AddPlayer (example_player 1 ''A'' GK 40) None False False]
     (Squad 10)) = - 30"
  by (simp add: add_player_def add_player_outcome_def Let_def Squad_def example_player_def
      with_price_def check_no_duplicate_player_def check_num_in_position_def check_cost_def
      check_num_per_team_def team_count_def)

theorem squad_invariants_witness:
  "team_count ''A''
     (run_ops no_market [AddPlayer (example_player 1 ''A'' GK 40) None True True,
        AddPlayer (example_player 2 ''A'' DEF 40) None True True,
        AddPlayer (example_player 3 ''A'' MID 40) None True True,
        AddPlayer (example_player 4 ''A'' FWD 40) None True True,
        RemovePlayer 2 (Some 45)] (Squad 1000)) \<le> 3 \<and>
   0 \<le> budget
     (run_ops no_market [AddPlayer (example_player 1 ''A'' GK 40) None True True,
        AddPlayer (example_player 2 ''A'' DEF 40) None True True,
        AddPlayer (example_player 3 ''A'' MID 40) None True True,
        AddPlayer (example_player 4 ''A'' FWD 40) None True True,
        RemovePlayer 2 (Some 45)] (Squad 1000)) \<and>
   fst (add_player (example_player 1 ''A'' GK 40) None True True (Squad 50)) \<and>
   0 \<le> budget (snd (add_player (example_player 1 ''A'' GK 40) None True True (Squad 50)))"
  using squad_invariants [of no_market "[AddPlayer (example_player 1 ''A'' GK 40) None True True,
        AddPlayer (example_player 2 ''A'' DEF 40) None True True,
        AddPlayer (example_player 3 ''A'' MID 40) None True True,
        AddPlayer (example_player 4 ''A'' FWD 40) None True True,
        RemovePlayer 2 (Some 45)]" 1000 "example_player 1 ''A'' GK 40" None True "Squad 50"]
  by (simp add: example_player_def with_price_def market_nonneg_def no_market_def
      add_player_def add_player_outcome_def Squad_def check_no_duplicate_player_def
      check_num_in_position_def check_cost_def check_num_per_team_def)

section \<open>Properties of the point hit and of the leaf count\<close>

subsection \<open>C2: calc_points_hit\<close>

text \<open>
  Claim C2. For every free-transfer count \<open>f\<close>: \<open>calc_points_hit\<close> returns 0 for \<open>"W"\<close> and
  \<open>"F"\<close>; for an integer \<open>n\<close>, and for \<open>"Tn"\<close> and \<open>"Bn"\<close> with the digit \<open>n\<close>, it returns
  \<open>max(0, 4 * (n - f))\<close>. So for 0 transfers (and a count \<open>f \<ge> 0\<close>) it returns 0, for
  \<open>n > f\<close> it returns \<open>4 * (n - f)\<close>, and for \<open>n \<le> f\<close> it returns 0.
\<close>

theorem calc_points_hit_spec:
  "calc_points_hit (PyStr ''W'') f = Inr 0 \<and>
   calc_points_hit (PyStr ''F'') f = Inr 0 \<and>
   calc_points_hit (PyInt n) f = Inr (max 0 (4 * (n - f))) \<and>
   (digit_value c = Some n \<longrightarrow>
      calc_points_hit (PyStr [CHR ''T'', c]) f = Inr (max 0 (4 * (n - f))) \<and>
      calc_points_hit (PyStr [CHR ''B'', c]) f = Inr (max 0 (4 * (n - f)))) \<and>
   (0 \<le> f \<longrightarrow> calc_points_hit (PyInt 0) f = Inr 0 \<and>
      calc_points_hit (PyStr ''T0'') f = Inr 0 \<and> calc_points_hit (PyStr ''B0'') f = Inr 0) \<and>
   (f < n \<longrightarrow> calc_points_hit (PyInt n) f = Inr (4 * (n - f))) \<and>
   (n \<le> f \<longrightarrow> calc_points_hit (PyInt n) f = Inr 0)"
  by (simp add: calc_points_hit_def startswith_def py_int_char_def digit_value_def)

theorem calc_points_hit_spec_witness:
  "calc_points_hit (PyStr ''T1'') 2 = Inr 0 \<and>
   calc_points_hit (PyStr ''B1'') 0 = Inr 4 \<and>
   calc_points_hit (PyInt 0) 1 = Inr 0 \<and>
   calc_points_hit (PyInt 2) 1 = Inr 4 \<and>
   calc_points_hit (PyInt 1) 2 = Inr 0"
  using calc_points_hit_spec [of 2 1 "CHR ''1''"] calc_points_hit_spec [of 0 1 "CHR ''1''"]
    calc_points_hit_spec [of 1 0 "CHR ''0''"] calc_points_hit_spec [of 1 2 "CHR ''2''"]
    calc_points_hit_spec [of 2 1 "CHR ''1''"]
  by (simp add: digit_value_def)

subsection \<open>C3: the leaf count without chips\<close>

lemma count_loop_body_plain:
  "count_loop_body (Some a) r1 r2 False False (Some t) = Some (t + a)"
  by (simp add: count_loop_body_def)

lemma count_no_chips:
  "max_week - week = int (Suc k) \<Longrightarrow> k < depth \<Longrightarrow>
     count_expected_outputs depth week max_week False False False False = Some (3 ^ Suc k)"
proof (induction k arbitrary: week depth)
  case 0
  then obtain d where d: "depth = Suc d" by (cases depth) auto
  from 0 have "week + 1 = max_week" by simp
  then show ?case by (simp add: d)
next
  case (Suc k)
  then obtain d where d: "depth = Suc d" by (cases depth) auto
  from Suc.prems have ne: "week + 1 \<noteq> max_week" and m: "max_week - (week + 1) = int (Suc k)"
    and kd: "k < d" by (simp_all add: d)
  have r: "count_expected_outputs d (week + 1) max_week False False False False
             = Some (3 ^ Suc k)"
    by (rule Suc.IH [OF m kd])
  have u: "[0 ..< 3] = [0, 1, 2]" by (simp add: upt_rec)
  show ?case
    by (simp add: d ne r u count_loop_body_plain Let_def)
qed

text \<open>
  Claim C3. For every horizon length \<open>N\<close> from 1 to 5,
  \<open>count_expected_outputs(0, N, False, False, False, False)\<close> returns, and returns \<open>3^N\<close>: a
  recursion depth of \<open>N\<close> is enough, and any larger depth gives the same value.
\<close>

theorem count_expected_outputs_no_chips:
  "1 \<le> N \<Longrightarrow> N \<le> 5 \<Longrightarrow> N \<le> depth \<Longrightarrow>
     count_expected_outputs depth 0 (int N) False False False False = Some (3 ^ N)"
  using count_no_chips [of "int N" 0 "N - 1" depth] by simp

theorem count_expected_outputs_no_chips_witness:
  "count_expected_outputs 3 0 3 False False False False = Some 27 \<and>
   count_expected_outputs 1 0 1 False False False False = Some 3 \<and>
   count_expected_outputs 7 0 5 False False False False = Some 243"
  using count_expected_outputs_no_chips [of 3 3] count_expected_outputs_no_chips [of 1 1]
    count_expected_outputs_no_chips [of 5 7]
  by simp


section \<open>Properties of the result selector\<close>

lemma best_strat_loop_keep:
  "\<forall>r \<in> set (records_of tag fs). total_score r \<le> b \<Longrightarrow> best_strat_loop tag fs b bs = bs"
  by (induction fs arbitrary: b bs) (auto simp: records_of_def)

lemma best_strat_loop_max:
  "\<exists>r \<in> set (records_of tag fs). b < total_score r \<Longrightarrow>
     \<exists>r. best_strat_loop tag fs b bs = Some r \<and> r \<in> set (records_of tag fs) \<and>
         b < total_score r \<and> (\<forall>r' \<in> set (records_of tag fs). total_score r' \<le> total_score r)"
proof (induction fs arbitrary: b bs)
  case Nil
  then show ?case by (simp add: records_of_def)
next
  case (Cons f fs)
  obtain filename st where f: "f = (filename, st)" by (cases f)
  show ?case
  proof (cases "tagged tag filename")
    case False
    then have eq: "records_of tag (f # fs) = records_of tag fs" by (simp add: records_of_def f)
    show ?thesis using Cons.IH [of b bs] Cons.prems False by (simp add: eq) (simp add: f)
  next
    case True
    then have eq: "records_of tag (f # fs) = st # records_of tag fs"
      by (simp add: records_of_def f)
    show ?thesis
    proof (cases "b < total_score st")
      case gt: True
      have step: "best_strat_loop tag (f # fs) b bs
                    = best_strat_loop tag fs (total_score st) (Some st)"
        using True gt by (simp add: f)
      show ?thesis
      proof (cases "\<exists>r \<in> set (records_of tag fs). total_score st < total_score r")
        case True
        from Cons.IH [OF True, of "Some st"] obtain r where
          r: "best_strat_loop tag fs (total_score st) (Some st) = Some r"
             "r \<in> set (records_of tag fs)" "total_score st < total_score r"
             "\<forall>r' \<in> set (records_of tag fs). total_score r' \<le> total_score r"
          by blast
        have "b < total_score r" using gt r(3) by simp
        moreover have "\<forall>r' \<in> set (records_of tag (f # fs)). total_score r' \<le> total_score r"
          using r(3,4) by (simp add: eq)
        ultimately show ?thesis using r(1,2) step by (simp add: eq)
      next
        case False
        then have "best_strat_loop tag fs (total_score st) (Some st) = Some st"
          by (intro best_strat_loop_keep) auto
        moreover have "\<forall>r' \<in> set (records_of tag (f # fs)). total_score r' \<le> total_score st"
          using False by (auto simp: eq)
        ultimately show ?thesis using gt step by (simp add: eq)
      qed
    next
      case le: False
      have step: "best_strat_loop tag (f # fs) b bs = best_strat_loop tag fs b bs"
        using True le by (simp add: f)
      have ex: "\<exists>r \<in> set (records_of tag fs). b < total_score r"
        using Cons.prems le by (auto simp: eq)
      from Cons.IH [OF ex, of bs] obtain r where
        r: "best_strat_loop tag fs b bs = Some r"
           "r \<in> set (records_of tag fs)" "b < total_score r"
           "\<forall>r' \<in> set (records_of tag fs). total_score r' \<le> total_score r"
        by blast
      have "\<forall>r' \<in> set (records_of tag (f # fs)). total_score r' \<le> total_score r"
        using r(3,4) le by (simp add: eq)
      then show ?thesis using r(1,2,3) step by (simp add: eq)
    qed
  qed
qed

text \<open>
  What the selector does return: when some record of the tag has a positive total score,
  a record of the tag whose total score is maximal; when none has, \<open>None\<close>.
\<close>

lemma find_best_strat_positive:
  "\<exists>r \<in> set (records_of tag fs). 0 < total_score r \<Longrightarrow>
     \<exists>r. find_best_strat_from_json tag fs = Some r \<and> r \<in> set (records_of tag fs) \<and>
         (\<forall>r' \<in> set (records_of tag fs). total_score r' \<le> total_score r)"
  unfolding find_best_strat_from_json_def using best_strat_loop_max [of tag fs 0 None] by blast

lemma find_best_strat_nonpositive:
  "\<forall>r \<in> set (records_of tag fs). total_score r \<le> 0 \<Longrightarrow> find_best_strat_from_json tag fs = None"
  unfolding find_best_strat_from_json_def by (rule best_strat_loop_keep)

subsection \<open>C6: the selector on records without a positive score\<close>

text \<open>
  Claim C6 says that on a non-empty set of records of the current tag the selector returns
  a record of maximal total score. The loop starts from \<open>best_score = 0\<close> and replaces the
  best record only on a strictly larger score, so it returns \<open>None\<close> on records of the tag
  none of which has a positive score: on the scores 0 and -4, and on the scores 0 and 0,
  which are the leaves \<open>0\<close> (no transfer) and \<open>1\<close> (the free transfer) of a one-gameweek
  plan in which every player is predicted 0 points. (The leaf \<open>2\<close> of that plan is never
  written: \<open>make_optimum_double_transfer\<close> starts from \<open>best_score = 0.0\<close> as well and
  ends in an unbound \<open>best_squad\<close>.)
\<close>

theorem find_best_strat_from_json_all_nonpositive:
  "records_of ''t'' [(''strategy_t_0.json'', example_strat 0),
      (''strategy_t_2.json'', example_strat (- 4))] = [example_strat 0, example_strat (- 4)] \<and>
   find_best_strat_from_json ''t'' [(''strategy_t_0.json'', example_strat 0),
      (''strategy_t_2.json'', example_strat (- 4))] = None \<and>
   records_of ''t'' [(''strategy_t_0.json'', example_strat 0),
      (''strategy_t_1.json'', example_strat 0)] = [example_strat 0, example_strat 0] \<and>
   find_best_strat_from_json ''t'' [(''strategy_t_0.json'', example_strat 0),
      (''strategy_t_1.json'', example_strat 0)] = None"
  by (simp add: find_best_strat_from_json_def records_of_def tagged_def startswith_def
      example_strat_def)


section \<open>Properties of the lineup\<close>

lemma length_filter_nth:
  "length (filter (\<lambda>k. P (xs ! k)) [0 ..< length xs]) = length (filter P xs)"
proof -
  have "filter P xs = filter P (map (\<lambda>k. xs ! k) [0 ..< length xs])"
    by (simp add: map_nth)
  also have "\<dots> = map (\<lambda>k. xs ! k) (filter (\<lambda>k. P (xs ! k)) [0 ..< length xs])"
    by (simp add: filter_map comp_def)
  finally show ?thesis by (metis length_map)
qed

lemma length_player_dict: "length (player_dict s gameweek tag pos) = position_count pos s"
  using length_filter_nth [of "\<lambda>p. position p = pos" "players s"]
  by (simp add: player_dict_def sort_desc_def position_count_def filter_map comp_def)

lemma position_count_calc:
  "position_count pos (calc_expected_points calc tag s) = position_count pos s"
  by (simp add: position_count_def calc_expected_points_def filter_map comp_def)

lemma start_keepers_two:
  "length (pd GK) = 2 \<Longrightarrow> \<exists>s1. start_keepers pd s = Inr s1"
  by (cases "pd GK" rule: remdups_adj.cases) (auto simp: start_keepers_def)

lemma apply_formation_pos_ok:
  "i < length f \<Longrightarrow> \<exists>ps'. apply_formation_pos (Some f) i es index ps = Inr ps'"
  by (induction es arbitrary: index ps) auto

lemma apply_formation_ok:
  assumes "length f = 3" shows "\<exists>s2. apply_formation pd (Some f) s1 = Inr s2"
proof -
  obtain ps1 where 1: "apply_formation_pos (Some f) 0 (pd DEF) 0 (players s1) = Inr ps1"
    using apply_formation_pos_ok [of 0 f "pd DEF" 0 "players s1"] assms by auto
  obtain ps2 where 2: "apply_formation_pos (Some f) 1 (pd MID) 0 ps1 = Inr ps2"
    using apply_formation_pos_ok [of 1 f "pd MID" 0 ps1] assms by auto
  obtain ps3 where 3: "apply_formation_pos (Some f) 2 (pd FWD) 0 ps2 = Inr ps3"
    using apply_formation_pos_ok [of 2 f "pd FWD" 0 ps2] assms by auto
  show ?thesis using 1 2 3 by (simp add: apply_formation_def)
qed

lemma FORMATIONS_length: "f \<in> set FORMATIONS \<Longrightarrow> length f = 3"
  by (auto simp: FORMATIONS_def)

lemma complete_counts:
  assumes "squad_inv s" and "is_complete s"
  shows "num_position s GK = 2 \<and> num_position s DEF = 5 \<and> num_position s MID = 5 \<and>
         num_position s FWD = 3"
proof -
  have "num_position s GK \<le> 2" "num_position s DEF \<le> 5" "num_position s MID \<le> 5"
       "num_position s FWD \<le> 3"
    using assms(1) TOTAL_PER_POSITION.simps unfolding squad_inv_def by metis+
  then show ?thesis using assms(2) by (simp add: is_complete_def)
qed

text \<open>Beyond the two goalkeeper accesses, \<open>optimize_subs\<close> can only fail on a missing
  prediction (\<open>KeyError\<close>) or on \<open>best_formation = None\<close> (\<open>TypeError\<close>): no index is out of
  range.\<close>

lemma starting_11_loop_error:
  "starting_11_loop gameweek tag tc ps tot = Inl e \<Longrightarrow> e = KeyError"
  by (induction ps arbitrary: tot) (auto split: if_splits option.splits)

lemma collect_points_error: "collect_points gameweek tag ps = Inl e \<Longrightarrow> e = KeyError"
  by (induction ps arbitrary: e) (auto split: option.splits sum.splits)

lemma apply_formation_pos_none_error:
  "apply_formation_pos None i es index ps = Inl e \<Longrightarrow> e = TypeError"
  by (cases es) auto

lemma apply_formation_none_error: "apply_formation pd None s = Inl e \<Longrightarrow> e = TypeError"
  by (auto simp: apply_formation_def split: sum.splits dest: apply_formation_pos_none_error)

lemma formations_loop_error:
  assumes "\<forall>f \<in> set fs. length f = 3"
    and "bf = None \<or> (\<exists>f. bf = Some f \<and> length f = 3)"
  shows "(\<forall>e. formations_loop pd gameweek tag fs s b bf = Inl e \<longrightarrow> e = KeyError) \<and>
         (\<forall>s' b' bf'. formations_loop pd gameweek tag fs s b bf = Inr (s', b', bf') \<longrightarrow>
            bf' = None \<or> (\<exists>f. bf' = Some f \<and> length f = 3))"
  using assms
proof (induction fs arbitrary: s b bf)
  case Nil
  then show ?case by simp
next
  case (Cons f fs)
  from Cons.prems(1) have lf: "length f = 3" and rest: "\<forall>f \<in> set fs. length f = 3"
    by simp_all
  obtain s1 where a: "apply_formation pd (Some f) s = Inr s1"
    using apply_formation_ok [OF lf] by blast
  show ?case
  proof (cases "total_points_for_starting_11 s1 gameweek tag False")
    case (Inl e)
    then have "e = KeyError"
      by (simp add: total_points_for_starting_11_def starting_11_loop_error)
    then show ?thesis using a Inl by simp
  next
    case (Inr score)
    show ?thesis
    proof (cases "score \<ge> b")
      case True
      then show ?thesis
        using a Inr Cons.IH [OF rest, of "Some f" s1 score] lf by simp
    next
      case False
      then show ?thesis
        using a Inr Cons.IH [OF rest Cons.prems(2), of s1 b] by simp
    qed
  qed
qed

lemma order_substitutes_error: "order_substitutes s gameweek tag = Inl e \<Longrightarrow> e = KeyError"
  by (auto simp: order_substitutes_def Let_def split: sum.splits dest: collect_points_error)

lemma optimize_subs_error:
  assumes "length (player_dict s gameweek tag GK) = 2"
    and "optimize_subs s gameweek tag = Inl e"
  shows "e = KeyError \<or> e = TypeError"
proof -
  let ?pd = "player_dict s gameweek tag"
  obtain s1 where k: "start_keepers ?pd s = Inr s1"
    using start_keepers_two [of "player_dict s gameweek tag" s] assms(1) by blast
  have fl: "(\<forall>e. formations_loop ?pd gameweek tag FORMATIONS s1 0 None = Inl e \<longrightarrow> e = KeyError) \<and>
     (\<forall>s' b' bf'. formations_loop ?pd gameweek tag FORMATIONS s1 0 None = Inr (s', b', bf') \<longrightarrow>
            bf' = None \<or> (\<exists>f. bf' = Some f \<and> length f = 3))"
    by (rule formations_loop_error) (simp_all add: FORMATIONS_length)
  show ?thesis
  proof (cases "formations_loop ?pd gameweek tag FORMATIONS s1 0 None")
    case (Inl e')
    then show ?thesis using assms(2) k fl by (simp add: optimize_subs_def)
  next
    case (Inr r)
    obtain s2 b2 bf2 where r: "r = (s2, b2, bf2)" by (cases r)
    from fl Inr r have bf: "bf2 = None \<or> (\<exists>f. bf2 = Some f \<and> length f = 3)" by blast
    show ?thesis
    proof (cases "apply_formation ?pd bf2 s2")
      case (Inl e')
      have "e' = TypeError"
      proof (cases bf2)
        case None
        then show ?thesis using Inl by (simp add: apply_formation_none_error)
      next
        case (Some f)
        then have "length f = 3" using bf by simp
        then obtain s3 where "apply_formation ?pd (Some f) s2 = Inr s3"
          using apply_formation_ok [of f "player_dict s gameweek tag" s2] by blast
        then show ?thesis using Inl Some by simp
      qed
      then show ?thesis using assms(2) k Inr r Inl by (simp add: optimize_subs_def)
    next
      case s3: (Inr s3)
      show ?thesis
        using assms(2) k Inr r s3 order_substitutes_error [of s3 gameweek tag]
        by (auto simp: optimize_subs_def split: sum.splits)
    qed
  qed
qed

subsection \<open>C10: a complete squad fills every position\<close>

text \<open>
  Claim C10. A squad built by \<open>add_player\<close>/\<open>remove_player\<close> calls from an empty one, on
  which \<open>is_complete\<close> holds, has exactly 2 goalkeepers, 5 defenders, 5 midfielders and
  3 forwards, in its counts and in its player list. So in \<open>get_expected_points\<close>, where
  \<open>optimize_subs\<close> runs on the squad after \<open>_calc_expected_points\<close>, the two goalkeeper
  accesses find their elements, \<open>apply_formation\<close> returns normally for each of the
  seven formations (from any state of the flags), and \<open>optimize_subs\<close> as a whole never
  raises \<open>IndexError\<close>.
\<close>

theorem complete_squad_lineup_safe:
  assumes "is_complete (run_ops mk ops (Squad b))"
  shows "num_position (run_ops mk ops (Squad b)) GK = 2 \<and>
         num_position (run_ops mk ops (Squad b)) DEF = 5 \<and>
         num_position (run_ops mk ops (Squad b)) MID = 5 \<and>
         num_position (run_ops mk ops (Squad b)) FWD = 3 \<and>
         position_count GK (run_ops mk ops (Squad b)) = 2 \<and>
         position_count DEF (run_ops mk ops (Squad b)) = 5 \<and>
         position_count MID (run_ops mk ops (Squad b)) = 5 \<and>
         position_count FWD (run_ops mk ops (Squad b)) = 3 \<and>
         length FORMATIONS = 7 \<and>
         (\<exists>s1. start_keepers
                 (player_dict (calc_expected_points calc tag (run_ops mk ops (Squad b)))
                    gameweek tag)
                 (calc_expected_points calc tag (run_ops mk ops (Squad b))) = Inr s1) \<and>
         (\<forall>f \<in> set FORMATIONS. \<forall>s1. \<exists>s2.
             apply_formation
               (player_dict (calc_expected_points calc tag (run_ops mk ops (Squad b)))
                  gameweek tag) (Some f) s1 = Inr s2) \<and>
         optimize_subs (calc_expected_points calc tag (run_ops mk ops (Squad b))) gameweek tag
           \<noteq> Inl IndexError"
proof -
  let ?s = "run_ops mk ops (Squad b)"
  have inv: "squad_inv ?s" by (rule squad_inv_run) (rule squad_inv_init)
  have n: "num_position ?s GK = 2 \<and> num_position ?s DEF = 5 \<and> num_position ?s MID = 5 \<and>
         num_position ?s FWD = 3"
    by (rule complete_counts [OF inv assms])
  have c: "int (position_count pos ?s) = num_position ?s pos" for pos
    using inv by (simp add: squad_inv_def)
  have pc: "position_count GK ?s = 2" "position_count DEF ?s = 5" "position_count MID ?s = 5"
    "position_count FWD ?s = 3"
    using n c [of GK] c [of DEF] c [of MID] c [of FWD] by simp_all
  have k: "\<exists>s1. start_keepers (player_dict (calc_expected_points calc tag ?s) gameweek tag)
                 (calc_expected_points calc tag ?s) = Inr s1"
    by (rule start_keepers_two) (simp add: length_player_dict position_count_calc pc)
  have f: "\<forall>f \<in> set FORMATIONS. \<forall>s1. \<exists>s2.
             apply_formation (player_dict (calc_expected_points calc tag ?s) gameweek tag)
               (Some f) s1 = Inr s2"
    using apply_formation_ok FORMATIONS_length by blast
  have l: "length FORMATIONS = 7" by (simp add: FORMATIONS_def)
  have g: "length (player_dict (calc_expected_points calc tag ?s) gameweek tag GK) = 2"
    by (simp add: length_player_dict position_count_calc pc)
  have o: "optimize_subs (calc_expected_points calc tag ?s) gameweek tag \<noteq> Inl IndexError"
    using optimize_subs_error [OF g] by blast
  show ?thesis using n pc k f l o by blast
qed


theorem complete_squad_lineup_safe_witness:
  "is_complete (run_ops no_market example_squad_ops (Squad 600)) \<and>
   num_position (run_ops no_market example_squad_ops (Squad 600)) GK = 2 \<and>
   position_count DEF (run_ops no_market example_squad_ops (Squad 600)) = 5 \<and>
   (\<exists>s1. start_keepers
       (player_dict (calc_expected_points keep_predictions ''tag''
          (run_ops no_market example_squad_ops (Squad 600))) 1 ''tag'')
       (calc_expected_points keep_predictions ''tag''
          (run_ops no_market example_squad_ops (Squad 600))) = Inr s1) \<and>
   (\<exists>s2. apply_formation
       (player_dict (calc_expected_points keep_predictions ''tag''
          (run_ops no_market example_squad_ops (Squad 600))) 1 ''tag'')
       (Some [4, 4, 2]) (Squad 0) = Inr s2)"
proof -
  have h: "is_complete (run_ops no_market example_squad_ops (Squad 600))"
    by code_simp
  have f: "[4, 4, 2] \<in> set FORMATIONS"
    by (simp add: FORMATIONS_def)
  show ?thesis
    using h f complete_squad_lineup_safe [OF h, of keep_predictions "''tag''" 1] by blast
qed


section \<open>Properties of the single-transfer search\<close>

lemma add_player_failed: "\<not> fst (add_player p price cb ct s) \<Longrightarrow> snd (add_player p price cb ct s) = s"
  by (simp add: add_player_def add_player_outcome_def Let_def split: if_splits)

lemma scan_candidates_find:
  "scan_candidates pid cs s cur =
     (case find (feasible pid s) cs of
        Some c \<Rightarrow> (snd (add_player (fst c) None True True s), Some c)
      | None \<Rightarrow> (s, if cs = [] then cur else Some (last cs)))"
proof (induction cs arbitrary: cur)
  case Nil
  then show ?case by simp
next
  case (Cons c cs)
  show ?case
  proof (cases "player_id (fst c) = pid")
    case True
    then show ?thesis using Cons.IH [of "Some c"]
      by (simp add: feasible_def split: option.splits)
  next
    case False
    obtain ok s' where r: "add_player (fst c) None True True s = (ok, s')"
      by (cases "add_player (fst c) None True True s")
    show ?thesis
    proof (cases ok)
      case True
      then show ?thesis using False r by (simp add: feasible_def)
    next
      case no: False
      then have same: "s' = s"
        using add_player_failed [of "fst c" None True True s] r by simp
      show ?thesis using False no r same Cons.IH [of "Some c"]
        by (simp add: feasible_def split: option.splits)
    qed
  qed
qed

lemma find_player_some: "q \<in> set ps \<Longrightarrow> \<exists>p. find_player (player_id q) ps = Some p"
  by (induction ps) auto

lemma removed_incomplete:
  assumes "squad_inv s" and "q \<in> set (players s)"
  shows "\<not> is_complete (snd (remove_player mk (player_id q) None s))"
proof -
  obtain p where p: "find_player (player_id q) (players s) = Some p"
    using find_player_some [OF assms(2)] by blast
  have le: "num_position s GK \<le> 2" "num_position s DEF \<le> 5" "num_position s MID \<le> 5"
       "num_position s FWD \<le> 3"
    using assms(1) TOTAL_PER_POSITION.simps unfolding squad_inv_def by metis+
  show ?thesis
    using le by (cases "position p") (simp_all add: remove_player_def p is_complete_def)
qed

lemma horizon_points_incomplete:
  "\<not> is_complete s \<Longrightarrow> gws \<noteq> [] \<Longrightarrow>
     horizon_points calc tag gw0 bb tc gws s tot = Inl (RuntimeError ''Squad is incomplete'')"
  by (cases gws) (simp_all add: get_expected_points_def)

lemma try_transfer_trial:
  assumes "squad_inv squad" and "q \<in> set (players squad)" and "gwr \<noteq> []"
    and "try_transfer pv squad tag gwr bb tc q cur = Inr (pin, tp, ns)"
  shows "\<exists>c. pin = Some c \<and> transfer_trial pv squad tag gwr bb tc q = Some (c, tp, ns)"
proof (cases "first_fit pv squad tag gwr q")
  case None
  have "\<not> is_complete (squad_without pv squad gwr q)"
    unfolding squad_without_def by (rule removed_incomplete [OF assms(1,2)])
  then have "horizon_points (calc_predicted_points pv) tag (hd gwr) bb tc gwr
               (squad_without pv squad gwr q) 0 = Inl (RuntimeError ''Squad is incomplete'')"
    using assms(3) by (rule horizon_points_incomplete)
  then have "try_transfer pv squad tag gwr bb tc q cur = Inl (RuntimeError ''Squad is incomplete'')"
    using None
    by (simp add: try_transfer_def scan_candidates_find first_fit_def squad_without_def)
  then show ?thesis using assms(4) by simp
next
  case (Some c)
  then have ff: "find (feasible (player_id q)
            (snd (remove_player (market_at pv (transfer_gw gwr)) (player_id q) None squad)))
          (get_predicted_points pv gwr (position q) tag) = Some c"
    by (simp add: first_fit_def squad_without_def)
  let ?h = "horizon_points (calc_predicted_points pv) tag (hd gwr) bb tc gwr
               (snd (add_player (fst c) None True True (squad_without pv squad gwr q))) 0"
  have tt: "try_transfer pv squad tag gwr bb tc q cur =
      (case ?h of Inl err \<Rightarrow> Inl err | Inr (tp, ns) \<Rightarrow> Inr (Some c, tp, ns))"
    by (simp add: try_transfer_def scan_candidates_find ff squad_without_def)
  have h: "?h = Inr (tp, ns)" and p: "pin = Some c"
    using assms(4) unfolding tt by (simp_all split: sum.splits prod.splits)
  have "transfer_trial pv squad tag gwr bb tc q = Some (c, tp, ns)"
    by (simp add: transfer_trial_def Some h)
  then show ?thesis using p by simp
qed

text \<open>The invariant of the loop over the squad members: every member tried so far has a
  trial whose score is at most the best score, and the best entries are either the
  initial ones or those of a tried member.\<close>

lemma single_transfer_loop_inv:
  assumes "squad_inv squad" and "gwr \<noteq> []" and "set qs \<subseteq> set (players squad)"
    and "single_transfer_loop pv squad tag gwr bb tc qs st = Inr st'"
  shows "(\<forall>q \<in> set qs. \<exists>c sc ns. transfer_trial pv squad tag gwr bb tc q = Some (c, sc, ns) \<and>
            sc \<le> best_score st') \<and>
         best_score st \<le> best_score st' \<and>
         ((best_squad st' = best_squad st \<and> best_score st' = best_score st \<and>
           best_pid_out st' = best_pid_out st \<and> best_pid_in st' = best_pid_in st) \<or>
          (\<exists>q \<in> set qs. \<exists>c ns. transfer_trial pv squad tag gwr bb tc q
                = Some (c, best_score st', ns) \<and>
             best_squad st' = Some ns \<and> best_pid_out st' = player_id q \<and>
             best_pid_in st' = player_id (fst c)))"
  using assms(3,4)
proof (induction qs arbitrary: st)
  case Nil
  then show ?case by simp
next
  case (Cons q qs)
  from Cons.prems(1) have qin: "q \<in> set (players squad)" and sub: "set qs \<subseteq> set (players squad)"
    by simp_all
  from Cons.prems(2) obtain pin tp ns where
    t: "try_transfer pv squad tag gwr bb tc q (p_in st) = Inr (pin, tp, ns)"
    by (auto split: sum.splits)
  from try_transfer_trial [OF assms(1) qin assms(2) t] obtain c where
    c: "pin = Some c" and tr: "transfer_trial pv squad tag gwr bb tc q = Some (c, tp, ns)"
    by blast
  show ?case
  proof (cases "tp > best_score st")
    case True
    let ?st1 = "\<lparr>best_score = tp, best_pid_out = player_id q, best_pid_in = player_id (fst c),
                  best_squad = Some ns, p_in = pin\<rparr>"
    have run: "single_transfer_loop pv squad tag gwr bb tc qs ?st1 = Inr st'"
      using Cons.prems(2) t c True by simp
    note ih = Cons.IH [OF sub run]
    have a: "\<forall>q' \<in> set (q # qs). \<exists>c sc ns. transfer_trial pv squad tag gwr bb tc q'
               = Some (c, sc, ns) \<and> sc \<le> best_score st'"
      using ih tr by auto
    have b: "best_score st \<le> best_score st'" using ih True by simp
    have d: "\<exists>q' \<in> set (q # qs). \<exists>c ns. transfer_trial pv squad tag gwr bb tc q'
                = Some (c, best_score st', ns) \<and>
             best_squad st' = Some ns \<and> best_pid_out st' = player_id q' \<and>
             best_pid_in st' = player_id (fst c)"
    proof -
      from ih have "(best_squad st' = best_squad ?st1 \<and> best_score st' = best_score ?st1 \<and>
           best_pid_out st' = best_pid_out ?st1 \<and> best_pid_in st' = best_pid_in ?st1) \<or>
          (\<exists>q \<in> set qs. \<exists>c ns. transfer_trial pv squad tag gwr bb tc q
                = Some (c, best_score st', ns) \<and>
             best_squad st' = Some ns \<and> best_pid_out st' = player_id q \<and>
             best_pid_in st' = player_id (fst c))" by blast
      then show ?thesis
      proof
        assume same: "best_squad st' = best_squad ?st1 \<and> best_score st' = best_score ?st1 \<and>
           best_pid_out st' = best_pid_out ?st1 \<and> best_pid_in st' = best_pid_in ?st1"
        have "transfer_trial pv squad tag gwr bb tc q = Some (c, best_score st', ns) \<and>
             best_squad st' = Some ns \<and> best_pid_out st' = player_id q \<and>
             best_pid_in st' = player_id (fst c)"
          using same tr by simp
        then show ?thesis by (intro bexI [of _ q] exI [of _ c] exI [of _ ns]) simp_all
      next
        assume "\<exists>q \<in> set qs. \<exists>c ns. transfer_trial pv squad tag gwr bb tc q
                = Some (c, best_score st', ns) \<and>
             best_squad st' = Some ns \<and> best_pid_out st' = player_id q \<and>
             best_pid_in st' = player_id (fst c)"
        then show ?thesis by auto
      qed
    qed
    show ?thesis using a b d by blast
  next
    case False
    have run: "single_transfer_loop pv squad tag gwr bb tc qs (st\<lparr>p_in := pin\<rparr>) = Inr st'"
      using Cons.prems(2) t False by simp
    note ih = Cons.IH [OF sub run]
    have a: "\<forall>q' \<in> set (q # qs). \<exists>c sc ns. transfer_trial pv squad tag gwr bb tc q'
               = Some (c, sc, ns) \<and> sc \<le> best_score st'"
      using ih tr False by auto
    show ?thesis using a ih by auto
  qed
qed


lemma squad_without_players:
  assumes "squad_inv squad" and "q \<in> set (players squad)"
  shows "players (squad_without pv squad gwr q) = remove1 q (players squad)"
proof -
  have "find_player (player_id q) (players squad) = Some q"
    using assms by (simp add: find_player_distinct squad_inv_def)
  then show ?thesis by (simp add: squad_without_def remove_player_def)
qed

lemma first_fit_best_ranked:
  assumes "first_fit pv squad tag gwr q = Some c"
    and "sorted_wrt (\<lambda>a b. snd b \<le> snd a) (get_predicted_points pv gwr (position q) tag)"
    and "c' \<in> set (get_predicted_points pv gwr (position q) tag)"
    and "feasible (player_id q) (squad_without pv squad gwr q) c'"
  shows "snd c' \<le> snd c"
proof -
  let ?xs = "get_predicted_points pv gwr (position q) tag"
  let ?P = "feasible (player_id q) (squad_without pv squad gwr q)"
  from assms(1) obtain i where i: "i < length ?xs" "c = ?xs ! i" "\<forall>j<i. \<not> ?P (?xs ! j)"
    unfolding first_fit_def find_Some_iff by blast
  from assms(3) obtain k where k: "k < length ?xs" "c' = ?xs ! k"
    by (auto simp: in_set_conv_nth)
  have "\<not> k < i" using i(3) k(2) assms(4) by blast
  then have "i = k \<or> i < k" by linarith
  then show ?thesis
  proof
    assume "i = k" then show ?thesis using i(2) k(2) by simp
  next
    assume "i < k"
    then show ?thesis using sorted_wrt_nth_less [OF assms(2) \<open>i < k\<close> k(1)] i(2) k(2) by simp
  qed
qed

subsection \<open>Where make_optimum_single_transfer returns\<close>

text \<open>
  On a squad that satisfies the squad invariant, when \<open>make_optimum_single_transfer\<close>
  returns a squad, a player out and a player in, they come from the trial of one squad
  member \<open>q\<close>: \<open>q\<close> is removed from a copy of the squad, the candidates of its position
  are scanned in the order of the ranked list and the first one that is not \<open>q\<close> and that
  \<open>add_player\<close> accepts (duplicate, quota, budget and team checks) is added, and the
  discounted score of the resulting squad over the horizon is computed. Every squad
  member has such a trial, and none scores more than the trial returned. When the ranked
  list is in descending order of the summed points, the candidate added has the most
  summed points among the feasible ones. The score of a trial is \<open>horizon_points\<close> of
  the squad it builds, in the exact arithmetic of this model; the source compares the
  doubles, so two trials whose exact scores differ by less than a rounding error can
  compare the other way there.
\<close>

lemma single_transfer_returns_best_trial:
  assumes "squad_inv squad"
    and "make_optimum_single_transfer pv squad tag gameweek_range bb tc = Inr (result, outs, ins)"
  shows "\<exists>q \<in> set (players squad). \<exists>c score.
           players (squad_without pv squad (effective_range pv gameweek_range) q)
             = remove1 q (players squad) \<and>
           first_fit pv squad tag (effective_range pv gameweek_range) q = Some c \<and>
           transfer_trial pv squad tag (effective_range pv gameweek_range) bb tc q
             = Some (c, score, result) \<and>
           outs = [player_id q] \<and> ins = [player_id (fst c)] \<and>
           (\<forall>q' \<in> set (players squad). \<exists>c' score' scored'.
              transfer_trial pv squad tag (effective_range pv gameweek_range) bb tc q'
                = Some (c', score', scored') \<and> score' \<le> score) \<and>
           (sorted_wrt (\<lambda>a b. snd b \<le> snd a)
              (get_predicted_points pv (effective_range pv gameweek_range) (position q) tag) \<longrightarrow>
            (\<forall>c' \<in> set (get_predicted_points pv (effective_range pv gameweek_range)
                           (position q) tag).
               feasible (player_id q)
                 (squad_without pv squad (effective_range pv gameweek_range) q) c' \<longrightarrow>
               snd c' \<le> snd c))"
proof -
  let ?gwr = "effective_range pv gameweek_range"
  let ?st0 = "\<lparr>best_score = - 1, best_pid_out = 0, best_pid_in = 0, best_squad = None,
               p_in = None\<rparr>"
  have ne: "?gwr \<noteq> []" by (simp add: effective_range_def)
  from assms(2) obtain st' where
    run: "single_transfer_loop pv squad tag ?gwr bb tc (players squad) ?st0 = Inr st'"
    and res: "best_squad st' = Some result" "outs = [best_pid_out st']"
      "ins = [best_pid_in st']"
    by (auto simp: make_optimum_single_transfer_def split: sum.splits option.splits)
  note inv = single_transfer_loop_inv [OF assms(1) ne subset_refl run]
  from inv res(1) obtain q c ns where
    q: "q \<in> set (players squad)"
    and tr: "transfer_trial pv squad tag ?gwr bb tc q = Some (c, best_score st', ns)"
    and bs: "best_squad st' = Some ns" "best_pid_out st' = player_id q"
      "best_pid_in st' = player_id (fst c)"
    by auto
  have ff: "first_fit pv squad tag ?gwr q = Some c"
    using tr by (auto simp: transfer_trial_def split: option.splits sum.splits)
  have all: "\<forall>q' \<in> set (players squad). \<exists>c' score' scored'.
              transfer_trial pv squad tag ?gwr bb tc q' = Some (c', score', scored') \<and>
              score' \<le> best_score st'"
    using inv by blast
  have srt: "sorted_wrt (\<lambda>a b. snd b \<le> snd a) (get_predicted_points pv ?gwr (position q) tag) \<longrightarrow>
            (\<forall>c' \<in> set (get_predicted_points pv ?gwr (position q) tag).
               feasible (player_id q) (squad_without pv squad ?gwr q) c' \<longrightarrow> snd c' \<le> snd c)"
    using first_fit_best_ranked [OF ff] by blast
  have "players (squad_without pv squad ?gwr q) = remove1 q (players squad) \<and>
        first_fit pv squad tag ?gwr q = Some c \<and>
        transfer_trial pv squad tag ?gwr bb tc q = Some (c, best_score st', result) \<and>
        outs = [player_id q] \<and> ins = [player_id (fst c)]"
    using squad_without_players [OF assms(1) q] ff tr bs res by simp
  then show ?thesis using q all srt by blast
qed

text \<open>On the example squad with the horizon of gameweeks 1 and 2 the search sells the
  midfielder 8 for the candidate 24.\<close>

lemma single_transfer_example:
  "map_sum id snd
     (make_optimum_single_transfer example_provider example_squad ''tag'' [1, 2] None None)
     = Inr ([8], [24]) \<and>
   (\<exists>q \<in> set (players example_squad). \<exists>c score.
      transfer_trial example_provider example_squad ''tag''
        (effective_range example_provider [1, 2]) None None q
        = Some (c, score,
            fst (projr (make_optimum_single_transfer example_provider example_squad ''tag''
                          [1, 2] None None))) \<and>
      [8] = [player_id q] \<and> [24] = [player_id (fst c)])"
proof -
  have inv: "squad_inv example_squad"
    unfolding example_squad_def by (rule squad_inv_run) (rule squad_inv_init)
  have e: "map_sum id snd
     (make_optimum_single_transfer example_provider example_squad ''tag'' [1, 2] None None)
     = Inr ([8], [24])"
    by code_simp
  then obtain result where r:
    "make_optimum_single_transfer example_provider example_squad ''tag'' [1, 2] None None
       = Inr (result, [8], [24])"
    by (cases "make_optimum_single_transfer example_provider example_squad ''tag'' [1, 2]
                 None None") auto
  show ?thesis
    using single_transfer_returns_best_trial [OF inv r] e r by auto
qed

subsection \<open>C4: a squad member without a feasible replacement\<close>

text \<open>
  The loop over the squad members scores \<open>new_squad\<close> after the scan whether or not a
  candidate was added. When the scan of one member ends without an addition, the squad
  scored has 14 players and \<open>get_expected_points\<close> raises: the search returns nothing,
  whatever the other members' trials are.
\<close>

lemma single_transfer_loop_no_replacement:
  assumes "squad_inv squad" and "gwr \<noteq> []" and "first_fit pv squad tag gwr q = None"
  shows "set qs \<subseteq> set (players squad) \<Longrightarrow> q \<in> set qs \<Longrightarrow>
           isl (single_transfer_loop pv squad tag gwr bb tc qs st)"
proof (induction qs arbitrary: st)
  case Nil
  then show ?case by simp
next
  case (Cons a qs)
  from Cons.prems(1) have ain: "a \<in> set (players squad)" and sub: "set qs \<subseteq> set (players squad)"
    by simp_all
  show ?case
  proof (cases "try_transfer pv squad tag gwr bb tc a (p_in st)")
    case (Inl e)
    then show ?thesis by simp
  next
    case (Inr r)
    obtain pin tp ns where r: "r = (pin, tp, ns)" by (cases r)
    from try_transfer_trial [OF assms(1) ain assms(2)] Inr r obtain c where
      c: "pin = Some c" and tr: "transfer_trial pv squad tag gwr bb tc a = Some (c, tp, ns)"
      by blast
    from tr have "first_fit pv squad tag gwr a \<noteq> None"
      by (auto simp: transfer_trial_def split: option.splits)
    then have "a \<noteq> q" using assms(3) by auto
    then have qin: "q \<in> set qs" using Cons.prems(2) by simp
    show ?thesis
      using Inr r c Cons.IH [OF sub qin] by simp
  qed
qed

lemma no_replacement_raises:
  assumes "squad_inv squad" and "q \<in> set (players squad)"
    and "first_fit pv squad tag (effective_range pv gameweek_range) q = None"
  shows "isl (make_optimum_single_transfer pv squad tag gameweek_range bb tc)"
proof -
  have ne: "effective_range pv gameweek_range \<noteq> []" by (simp add: effective_range_def)
  have "isl (single_transfer_loop pv squad tag (effective_range pv gameweek_range) bb tc
               (players squad)
               \<lparr>best_score = - 1, best_pid_out = 0, best_pid_in = 0, best_squad = None,
                p_in = None\<rparr>)"
    by (rule single_transfer_loop_no_replacement [OF assms(1) ne assms(3) subset_refl assms(2)])
  then show ?thesis
    by (auto simp: make_optimum_single_transfer_def isl_def)
qed

text \<open>
  Claim C4 says that for every squad member the first feasible candidate is accepted and
  that the function returns the pair of the best score over all members. On the example
  squad, with a ranked list of goalkeepers whose only candidate is too expensive, the
  goalkeeper 1 has no feasible replacement while the midfielder 8 has the candidate 24:
  the source raises \<open>RuntimeError("Squad is incomplete")\<close> in the first pass of the loop
  and returns no pair. The double-transfer search computes the score only under
  \<open>if added_2_ok\<close>; this loop has no such guard.
\<close>

theorem make_optimum_single_transfer_no_replacement:
  "first_fit example_provider_no_keeper example_squad ''tag'' [1, 2]
     (example_player_pts 1 ''A'' GK 40 3) = None \<and>
   first_fit example_provider_no_keeper example_squad ''tag'' [1, 2]
     (example_player_pts 8 ''A'' MID 40 5)
     = Some (example_player_pts 24 ''A'' MID 40 30, 60) \<and>
   make_optimum_single_transfer example_provider_no_keeper example_squad ''tag'' [1, 2]
     None None = Inl (RuntimeError ''Squad is incomplete'')"
proof -
  have a: "first_fit example_provider_no_keeper example_squad ''tag'' [1, 2]
     (example_player_pts 1 ''A'' GK 40 3) = None"
    by code_simp
  have b: "first_fit example_provider_no_keeper example_squad ''tag'' [1, 2]
     (example_player_pts 8 ''A'' MID 40 5)
     = Some (example_player_pts 24 ''A'' MID 40 30, 60)"
    by code_simp
  have "map_sum id snd
     (make_optimum_single_transfer example_provider_no_keeper example_squad ''tag'' [1, 2]
        None None) = Inl (RuntimeError ''Squad is incomplete'')"
    by code_simp
  then have c: "make_optimum_single_transfer example_provider_no_keeper example_squad
      ''tag'' [1, 2] None None = Inl (RuntimeError ''Squad is incomplete'')"
    by (cases "make_optimum_single_transfer example_provider_no_keeper example_squad
                 ''tag'' [1, 2] None None") auto
  show ?thesis using a b c by blast
qed


section \<open>Properties of apply_strategy\<close>

text \<open>
  The snapshot and its restoration, where the free-hit gameweek completes: the squad in
  effect at the next gameweek is the one the free-hit directive was applied to.
\<close>

lemma free_hit_snapshot:
  "apply_directive eng tag num_iter bb tc (PyStr ''F'') gw gw_range st = Inr st1 \<Longrightarrow>
     squad_before_free_hit st1 = Some (new_squad st) \<and> rp st1 = rp st"
  by (auto simp: apply_directive_def Let_def split: sum.splits option.splits)

lemma free_hit_restored:
  "squad_before_free_hit st1 = Some sq \<Longrightarrow>
     squad_in_effect (st1\<lparr>new_squad := scored, strategy_output := out\<rparr>) = sq"
  by (simp add: squad_in_effect_def restore_def)

lemma free_hit_frame:
  assumes "map_of strat0 gw = Some (PyStr ''F'')"
    and "gameweek_step eng strat0 tag baseline_dict num_iter bb tc gw gw_range st
           = Inr (False, st')"
  shows "squad_in_effect st' = squad_in_effect st"
proof -
  from assms obtain st1 where
    d: "apply_directive eng tag num_iter bb tc (PyStr ''F'') gw gw_range (restore st) = Inr st1"
    by (auto simp: gameweek_step_def split: sum.splits)
  have b: "squad_before_free_hit st1 = Some (new_squad (restore st))"
    using free_hit_snapshot [OF d] by simp
  have "squad_before_free_hit st' = squad_before_free_hit st1"
    using assms d
    by (auto simp: gameweek_step_def Let_def split: sum.splits prod.splits option.splits
        bool.splits)
  then show ?thesis using b by (simp add: squad_in_effect_def restore_def)
qed

text \<open>The frame lemma is not empty: after a gameweek that bound \<open>rp\<close>, the free-hit
  gameweek of the example engine completes.\<close>

lemma free_hit_frame_example:
  "map_sum id fst
     (gameweek_step example_engine [(1, PyInt 0), (2, PyStr ''F''), (3, PyInt 0)] ''tag'' None 1
        None None 2 [2, 3]
        ((initial_state example_engine 0)\<lparr>new_squad := example_squad, rp := Some []\<rparr>))
     = Inr False"
  by code_simp

subsection \<open>C5: a free hit in the first gameweek of a plan\<close>

lemma free_hit_first_fails:
  assumes "map_of strat0 gw = Some (PyStr ''F'')" and "rp st = None"
    and "squad_before_free_hit st = None"
  shows "isl (gameweek_step eng strat0 tag None num_iter bb tc gw gw_range st)"
proof (cases "apply_directive eng tag num_iter bb tc (PyStr ''F'') gw gw_range st")
  case (Inl e)
  then show ?thesis using assms by (simp add: gameweek_step_def restore_def)
next
  case (Inr st1)
  then have r: "rp st1 = None" using free_hit_snapshot [OF Inr] assms(2) by simp
  show ?thesis using assms Inr r
    by (simp add: gameweek_step_def restore_def below_baseline_def get_discount_factor_def
        Let_def split: sum.splits prod.splits option.splits)
qed

text \<open>
  Claim C5 says that after a free hit at gameweek \<open>g\<close> the squad in effect at \<open>g + 1\<close> is the
  squad from before the chip. For the plan \<open>{1: "F", 2: 0}\<close> the source never reaches
  gameweek 2, whatever the searches and \<open>get_squad_value\<close> return: the free-hit branch
  rebinds \<open>new_squad\<close> to the list of ids before it calls \<open>get_squad_value\<close> and never
  assigns \<open>rp\<close> (the wildcard branch assigns \<open>rp\<close> the ids and passes the squad), so the
  gameweek ends in an error, at the latest the unbound \<open>rp\<close>.
\<close>

theorem apply_strategy_free_hit_first:
  "isl (apply_strategy eng ([(1, PyStr ''F''), (2, PyInt 0)], 0) tag None num_iter)"
proof -
  have "isl (gameweek_step eng [(1, PyStr ''F''), (2, PyInt 0)] tag None num_iter None None
               1 [1, 2] (initial_state eng 0))"
    by (rule free_hit_first_fails) (simp_all add: initial_state_def)
  then obtain e where "gameweek_step eng [(1, PyStr ''F''), (2, PyInt 0)] tag None num_iter
      None None 1 [1, 2] (initial_state eng 0) = Inl e"
    by (auto simp: isl_def)
  then have e: "strategy_loop eng [(1, PyStr ''F''), (2, PyInt 0)] tag None num_iter
      None None [1, 2] (initial_state eng 0) = Inl e"
    by simp
  have g: "sort (map fst [(1 :: int, PyStr ''F''), (2, PyInt 0)]) = [1, 2]"
    by simp
  have c: "chip_gameweeks [(1, PyStr ''F''), (2, PyInt 0)] None None = (None, None)"
    by simp
  show ?thesis
    by (simp only: apply_strategy_def Let_def fst_conv snd_conv g c e sum.case sum.disc)
qed


end
